theory Spec2Isabelle
  imports Complex_Main "HOL-Library.Sublist" "HOL-Library.AList"
begin

section \<open>JavaScript strings and numbers\<close>

text \<open>
  The two agents of the repository are \<^verbatim>\<open>src/autonomous-agent.js\<close> (class
  \<^verbatim>\<open>AutonomousHealthcareAgent\<close>, REST calls through axios) and
  \<^verbatim>\<open>src/unnamed/part_000\<close> (class \<^verbatim>\<open>AutonomousHealthcareAgentMCP\<close>, tool
  calls through MCP sessions). Functions of the second carry the suffix \<open>_mcp\<close> where both
  classes have a method of the same name and a different body; methods with the same body
  in both classes are modelled once.

  Strings are \<^typ>\<open>string\<close>. The strings the utilities receive are host names read from
  the \<^verbatim>\<open>hostname\<close> property of a \<^verbatim>\<open>URL\<close> object, which are ASCII; the case
  conversions below are JavaScript's on ASCII and leave every other character alone.
\<close>

definition toLowerCase_char :: "char \<Rightarrow> char" where
  "toLowerCase_char c =
     (let n = (of_char c :: nat) in if 65 \<le> n \<and> n \<le> 90 then char_of (n + 32) else c)"

definition toUpperCase_char :: "char \<Rightarrow> char" where
  "toUpperCase_char c =
     (let n = (of_char c :: nat) in if 97 \<le> n \<and> n \<le> 122 then char_of (n - 32) else c)"

definition toLowerCase :: "string \<Rightarrow> string" where
  "toLowerCase s = map toLowerCase_char s"

text \<open>The character class \<^verbatim>\<open>[a-z0-9]\<close>.\<close>

definition lower_alnum :: "char \<Rightarrow> bool" where
  "lower_alnum c =
     (let n = (of_char c :: nat) in (97 \<le> n \<and> n \<le> 122) \<or> (48 \<le> n \<and> n \<le> 57))"

text \<open>\<^verbatim>\<open>s.replace(/^www\./, '')\<close>\<close>

definition strip_www :: "string \<Rightarrow> string" where
  "strip_www d = (if prefix ''www.'' d then drop 4 d else d)"

text \<open>
  \<^verbatim>\<open>s.replace(/\.(com|co\.uk|org|net)$/, '')\<close>: the pattern is anchored at the end of
  the input, so it matches at most one suffix of the string, and that suffix is removed.
\<close>

definition strip_tld :: "string \<Rightarrow> string" where
  "strip_tld d =
     (if suffix ''.com'' d then take (length d - 4) d
      else if suffix ''.co.uk'' d then take (length d - 6) d
      else if suffix ''.org'' d then take (length d - 4) d
      else if suffix ''.net'' d then take (length d - 4) d
      else d)"

text \<open>\<^verbatim>\<open>s.replace(/[^a-z0-9]/g, '-')\<close>\<close>

definition hyphenate :: "string \<Rightarrow> string" where
  "hyphenate s = map (\<lambda>c. if lower_alnum c then c else CHR ''-'') s"

text \<open>\<^verbatim>\<open>s.replace(/-+/g, '-')\<close>: every maximal run of hyphens becomes one hyphen.\<close>

fun collapse_hyphens :: "string \<Rightarrow> string" where
  "collapse_hyphens (a # b # cs) =
     (if a = CHR ''-'' \<and> b = CHR ''-'' then collapse_hyphens (b # cs)
      else a # collapse_hyphens (b # cs))"
| "collapse_hyphens cs = cs"

text \<open>
  \<^verbatim>\<open>s.replace(/^-|-$/g, '')\<close>: a hyphen at index 0 is removed, and then a hyphen that
  is the last character of what remains to be scanned is removed.
\<close>

definition trim_hyphens :: "string \<Rightarrow> string" where
  "trim_hyphens s =
     (let s1 = (case s of [] \<Rightarrow> [] | c # cs \<Rightarrow> if c = CHR ''-'' then cs else s)
      in if s1 \<noteq> [] \<and> last s1 = CHR ''-'' then butlast s1 else s1)"

text \<open>\<^verbatim>\<open>s.substring(0, n)\<close> for a length \<open>n\<close> that is not negative.\<close>

definition substring0 :: "nat \<Rightarrow> string \<Rightarrow> string" where
  "substring0 n s = take n s"

definition generatePracticeId :: "string \<Rightarrow> string" where
  "generatePracticeId domain =
     substring0 25 (trim_hyphens (collapse_hyphens (hyphenate (toLowerCase
       (strip_tld (strip_www domain))))))"

text \<open>
  \<^verbatim>\<open>s.split(/[-.]/)\<close>: the pieces between the separators, empty pieces included; the
  empty string gives one empty piece.
\<close>

fun split_on :: "(char \<Rightarrow> bool) \<Rightarrow> string \<Rightarrow> string list" where
  "split_on p [] = [[]]"
| "split_on p (c # cs) =
     (if p c then [] # split_on p cs
      else (case split_on p cs of [] \<Rightarrow> [[c]] | w # ws \<Rightarrow> (c # w) # ws))"

definition hyphen_or_dot :: "char \<Rightarrow> bool" where
  "hyphen_or_dot c = (c = CHR ''-'' \<or> c = CHR ''.'')"

text \<open>\<^verbatim>\<open>word.charAt(0).toUpperCase() + word.slice(1)\<close>\<close>

definition capitalize :: "string \<Rightarrow> string" where
  "capitalize word = (case word of [] \<Rightarrow> [] | c # cs \<Rightarrow> toUpperCase_char c # cs)"

text \<open>\<^verbatim>\<open>words.join(sep)\<close>\<close>

fun join :: "string \<Rightarrow> string list \<Rightarrow> string" where
  "join sep [] = []"
| "join sep [w] = w"
| "join sep (w # ws) = w @ sep @ join sep ws"

definition extractCompanyFromDomain :: "string \<Rightarrow> string" where
  "extractCompanyFromDomain domain =
     (let name = join '' '' (map capitalize (split_on hyphen_or_dot
                   (strip_tld (strip_www domain))))
      in name @ '' Clinic'')"

text \<open>\<^verbatim>\<open>s.includes(t)\<close>\<close>

fun js_includes :: "string \<Rightarrow> string \<Rightarrow> bool" where
  "js_includes [] t = (t = [])"
| "js_includes (c # cs) t = (prefix t (c # cs) \<or> js_includes cs t)"

text \<open>A number in a template literal: the decimal digits of an integer.\<close>

function nat_string :: "nat \<Rightarrow> string" where
  "nat_string n =
     (if n < 10 then [char_of (48 + n)]
      else nat_string (n div 10) @ [char_of (48 + n mod 10)])"
  by pat_completeness auto
termination
  by (relation "measure id") auto

declare nat_string.simps [simp del]

definition js_number :: "int \<Rightarrow> string" where
  "js_number i = (if i < 0 then CHR ''-'' # nat_string (nat (- i)) else nat_string (nat i))"

text \<open>
  A property that may be \<^verbatim>\<open>undefined\<close> is a \<^typ>\<open>string option\<close>. In a template
  literal it prints as \<^verbatim>\<open>undefined\<close>; in a condition it is truthy when it is a string
  that is not empty; \<^verbatim>\<open>a || b\<close> takes \<open>b\<close> when \<open>a\<close> is falsy.
\<close>

definition template :: "string option \<Rightarrow> string" where
  "template v = (case v of None \<Rightarrow> ''undefined'' | Some s \<Rightarrow> s)"

definition truthy :: "string option \<Rightarrow> bool" where
  "truthy v = (case v of None \<Rightarrow> False | Some s \<Rightarrow> s \<noteq> [])"

definition or_else :: "string option \<Rightarrow> string \<Rightarrow> string" where
  "or_else v d = (case v of None \<Rightarrow> d | Some s \<Rightarrow> if s = [] then d else s)"

text \<open>
  \<^verbatim>\<open>Math.round(ms / 1000)\<close> on an integer number of milliseconds: the nearest
  integer, a half rounded up.
\<close>

definition round_seconds :: "int \<Rightarrow> int" where
  "round_seconds ms = (ms + 500) div 1000"

text \<open>
  \<^verbatim>\<open>xs[Math.floor(r * xs.length)]\<close> inside a template literal. The draw \<open>r\<close> is a
  real number and the product is exact; an index outside the array reads
  \<^verbatim>\<open>undefined\<close>.
\<close>

definition pick :: "string list \<Rightarrow> real \<Rightarrow> string" where
  "pick xs r =
     (let i = \<lfloor>r * real (length xs)\<rfloor>
      in if 0 \<le> i \<and> i < int (length xs) then xs ! nat i else ''undefined'')"

text \<open>\<^verbatim>\<open>Math.floor(r * 30) + 70\<close>\<close>

definition draw_leadScore :: "real \<Rightarrow> int" where
  "draw_leadScore r = \<lfloor>r * 30\<rfloor> + 70"

text \<open>\<^verbatim>\<open>targets.slice(0, count)\<close>: a negative end counts from the end of the array.\<close>

definition slice0 :: "'a list \<Rightarrow> int \<Rightarrow> 'a list" where
  "slice0 xs n = (if n < 0 then take (nat (int (length xs) + n)) xs else take (nat n) xs)"

text \<open>
  The same expression with the rounding of the product written out: \<open>rnd\<close> maps the
  exact product to the number the machine stores.
\<close>

definition draw_leadScore_rounded :: "(real \<Rightarrow> real) \<Rightarrow> real \<Rightarrow> int" where
  "draw_leadScore_rounded rnd r = \<lfloor>rnd (r * 30)\<rfloor> + 70"

text \<open>Two hyphens in a row somewhere in a string.\<close>

fun double_hyphen :: "string \<Rightarrow> bool" where
  "double_hyphen (a # b # cs) = ((a = CHR ''-'' \<and> b = CHR ''-'') \<or> double_hyphen (b # cs))"
| "double_hyphen cs = False"

section \<open>The practice name as the specification words it\<close>

text \<open>
  The specification describes the derivation in words: strip a leading \<^verbatim>\<open>www.\<close>
  label and a known top-level-domain suffix from the host, split the rest at hyphens and
  dots, capitalise each segment, join the segments with spaces and append the word
  \<^verbatim>\<open>Clinic\<close>. The definitions below follow these words, not the code.
\<close>

definition known_suffixes :: "string list" where
  "known_suffixes = [''.com'', ''.co.uk'', ''.org'', ''.net'']"

definition spec_strip_label :: "string \<Rightarrow> string" where
  "spec_strip_label h = (if take 4 h = ''www.'' then drop 4 h else h)"

definition spec_strip_suffix :: "string \<Rightarrow> string" where
  "spec_strip_suffix h =
     (case List.find (\<lambda>t. suffix t h) known_suffixes of
        None \<Rightarrow> h
      | Some t \<Rightarrow> take (length h - length t) h)"

function spec_segments :: "string \<Rightarrow> string list" where
  "spec_segments h =
     (case dropWhile (\<lambda>c. \<not> hyphen_or_dot c) h of
        [] \<Rightarrow> [takeWhile (\<lambda>c. \<not> hyphen_or_dot c) h]
      | sep # rest \<Rightarrow> takeWhile (\<lambda>c. \<not> hyphen_or_dot c) h # spec_segments rest)"
  by pat_completeness auto
termination
proof (relation "measure length")
  show "wf (measure length)" by simp
next
  fix h :: string and sep rest
  assume "dropWhile (\<lambda>c. \<not> hyphen_or_dot c) h = sep # rest"
  then have "length (sep # rest) \<le> length h"
    using length_dropWhile_le[of "\<lambda>c. \<not> hyphen_or_dot c" h] by simp
  then show "(rest, h) \<in> measure length" by simp
qed

declare spec_segments.simps [simp del]

definition spec_capitalize :: "string \<Rightarrow> string" where
  "spec_capitalize seg = (if seg = [] then [] else toUpperCase_char (hd seg) # tl seg)"

definition spec_join_spaces :: "string list \<Rightarrow> string" where
  "spec_join_spaces segs =
     (case segs of [] \<Rightarrow> [] | seg # rest \<Rightarrow> foldl (\<lambda>acc w. acc @ '' '' @ w) seg rest)"

definition derivePracticeName :: "string \<Rightarrow> string" where
  "derivePracticeName h =
     spec_join_spaces (map spec_capitalize
       (spec_segments (spec_strip_suffix (spec_strip_label h)))) @ '' Clinic''"

section \<open>Data model\<close>

text \<open>A JavaScript \<^verbatim>\<open>Error\<close> object with its \<^verbatim>\<open>message\<close>.\<close>

datatype error = Error (message: string)

text \<open>
  The five phases of a pipeline run, and the final status update that only
  \<^verbatim>\<open>autonomous-agent.js\<close> has.
\<close>

datatype phase = Discovery | Storage | VoiceSynthesis | Provisioning | Deployment | StatusUpdate

text \<open>
  What a run leaves behind, in order: the console line that announces a phase, the
  console line that reports its result, the console line that announces a lead with its
  number and address, a call of \<^verbatim>\<open>this.sleep(ms)\<close>, and a call of
  \<^verbatim>\<open>client.close()\<close> on a named session.
\<close>

datatype event =
    PhaseStart phase
  | PhaseDone phase
  | LeadStart nat string
  | Sleep nat
  | Close string

text \<open>
  \<^verbatim>\<open>practiceData\<close>, the object the discovery phase returns. The two brand colours are
  the fields of its \<^verbatim>\<open>brandColors\<close> object.
\<close>

record scraped =
  title :: "string option"
  contact :: "string option"
  scraped_email :: "string option"
  scraped_services :: "string list"

record practice =
  company :: string
  contactName :: string
  phone :: string
  email :: string
  location :: string
  services :: "string list"
  practiceType :: string
  practiceId :: string
  leadSource :: string
  leadScore :: int
  brandPrimary :: string
  brandSecondary :: string
  rawScrapedData :: "scraped option"

text \<open>The repository object of the source-control provider's answer.\<close>

record repository =
  name :: "string option"
  clone_url :: "string option"
  html_url :: "string option"

record deployment =
  deploy_url :: string
  deploy_status :: string
  projectId :: string
  serviceId :: "string option"
  deploy_method :: "string option"

record voice =
  voice_name :: "string option"
  category :: "string option"
  voiceId :: "string option"
  voice_id :: "string option"

text \<open>
  The voice agent object of \<^verbatim>\<open>createVoiceAgentMCP\<close>; its constant members
  (\<^verbatim>\<open>capabilities\<close>, \<^verbatim>\<open>configuration\<close>, \<^verbatim>\<open>voiceType\<close>) and the copy of the
  practice fields in \<^verbatim>\<open>practiceSpecific\<close> are left out.
\<close>

record voice_agent =
  voice_status :: string
  agentId :: string
  voice_method :: string
  voiceFile :: "string option"
  agent_voiceId :: "string option"
  agent_voiceName :: "string option"
  prompt :: string
  fallback_reason :: "string option"
  created_timestamp :: int

record notion_storage =
  storage_status :: string
  pageId :: string
  storage_method :: string

text \<open>The page object of the CRM's REST answer (\<^verbatim>\<open>response.data\<close>).\<close>

record notion_page =
  page_id :: "string option"

text \<open>
  The lead record a pipeline run returns. A member that an object literal of the source
  does not have is \<open>None\<close>. \<open>timestamp\<close> is the instant that
  \<^verbatim>\<open>new Date().toISOString()\<close> prints.
\<close>

record lead_record =
  leadId :: "string option"
  url :: string
  status :: string
  error :: "string option"
  duration :: "int option"
  timestamp :: int
  lead_company :: "string option"
  doctor :: "string option"
  demoUrl :: "string option"
  repositoryUrl :: "string option"
  lead_agentId :: "string option"
  lead_notionId :: "string option"
  lead_leadScore :: "int option"
  lead_services :: "string list option"
  lead_leadSource :: "string option"
  lead_method :: "string option"

section \<open>The world outside and the agent's state\<close>

type_synonym audio = "nat list"

text \<open>
  Everything the agents call and do not define is a member of the environment. The
  agent counts its interactions with the world in \<open>tick\<close>; an answer of the world depends
  on that count and on the arguments of the call, so the same call may be answered
  differently at different moments. A call that throws or rejects answers \<open>Inl\<close>.

  \<^item> \<open>Date_now\<close>, \<open>Math_random\<close>: the clock in milliseconds and the random draws;
  \<^item> \<open>URL_hostname\<close>: \<^verbatim>\<open>new URL(u).hostname\<close>, which throws on an address that
    does not parse;
  \<^item> \<open>execSync\<close>: a shell command of \<^verbatim>\<open>child_process\<close>;
  \<^item> \<open>JSON_parse_repository\<close>, \<open>JSON_parse_scraped\<close>: \<^verbatim>\<open>JSON.parse\<close> followed by
    the reads of the parsed object's members (\<open>Inl\<close> when the text is not JSON or the
    value has no members to read);
  \<^item> \<open>client_connect\<close>, \<open>callTool\<close>, \<open>client_close\<close>: an MCP session, named by the
    address of its server; \<open>callTool\<close> answers the \<^verbatim>\<open>text\<close> of the first element of
    the result's \<^verbatim>\<open>content\<close>, \<open>None\<close> where the optional chain of the source reads
    \<^verbatim>\<open>undefined\<close>;
  \<^item> \<open>voices_getAll\<close>, \<open>textToSpeech_convert\<close>, \<open>writeFileSync\<close>: the voice provider's
    client and the file the audio is written to (with the conversion to a buffer);
  \<^item> \<open>axios_post_notion\<close>, \<open>axios_post_github\<close>, \<open>axios_patch\<close>, \<open>fs_readFile\<close>,
    \<open>fs_writeFile\<close>: the REST calls and file accesses of \<^verbatim>\<open>autonomous-agent.js\<close>; a
    post answers \<^verbatim>\<open>response.data\<close>, \<open>None\<close> when it is \<^verbatim>\<open>null\<close> or
    \<^verbatim>\<open>undefined\<close>;
  \<^item> \<open>notionDatabaseId\<close>: a member of \<^verbatim>\<open>this.config\<close>.
\<close>

record env =
  Date_now :: "nat \<Rightarrow> int"
  Math_random :: "nat \<Rightarrow> real"
  URL_hostname :: "string \<Rightarrow> error + string"
  execSync :: "nat \<Rightarrow> string \<Rightarrow> error + string"
  JSON_parse_repository :: "string \<Rightarrow> error + repository"
  JSON_parse_scraped :: "string \<Rightarrow> error + scraped"
  client_connect :: "nat \<Rightarrow> string \<Rightarrow> error + unit"
  callTool :: "nat \<Rightarrow> string \<Rightarrow> string \<Rightarrow> (string \<times> string) list \<Rightarrow> error + string option"
  client_close :: "nat \<Rightarrow> string \<Rightarrow> error + unit"
  voices_getAll :: "nat \<Rightarrow> error + voice list"
  textToSpeech_convert :: "nat \<Rightarrow> string option \<Rightarrow> string \<Rightarrow> error + audio option"
  writeFileSync :: "nat \<Rightarrow> string \<Rightarrow> audio \<Rightarrow> error + unit"
  axios_post_notion :: "nat \<Rightarrow> (string \<times> string) list \<Rightarrow> error + notion_page option"
  axios_post_github :: "nat \<Rightarrow> (string \<times> string) list \<Rightarrow> error + repository option"
  axios_patch :: "nat \<Rightarrow> string \<Rightarrow> (string \<times> string) list \<Rightarrow> error + unit"
  fs_readFile :: "nat \<Rightarrow> string \<Rightarrow> error + string"
  fs_writeFile :: "nat \<Rightarrow> string \<Rightarrow> string \<Rightarrow> error + unit"
  notionDatabaseId :: string

text \<open>
  The agent object: \<^verbatim>\<open>this.mcpClients\<close> in insertion order (session name, server
  address), whether \<^verbatim>\<open>this.elevenLabsClient\<close> is set, \<^verbatim>\<open>this.healthcareTargets\<close>,
  and the events so far.
\<close>

record agent =
  tick :: nat
  mcpClients :: "(string \<times> string) list"
  elevenLabsClient :: bool
  healthcareTargets :: "string list"
  trace :: "event list"

definition call :: "(nat \<Rightarrow> 'a) \<Rightarrow> agent \<Rightarrow> 'a \<times> agent" where
  "call f s = (f (tick s), s\<lparr>tick := Suc (tick s)\<rparr>)"

definition emit :: "event \<Rightarrow> agent \<Rightarrow> agent" where
  "emit e s = s\<lparr>trace := trace s @ [e]\<rparr>"

text \<open>\<^verbatim>\<open>this.sleep(ms)\<close>\<close>

definition sleep :: "nat \<Rightarrow> agent \<Rightarrow> agent" where
  "sleep ms s = emit (Sleep ms) s"

text \<open>The execSync statements of a block, in order, up to the first that throws.\<close>

fun run_all :: "env \<Rightarrow> string list \<Rightarrow> agent \<Rightarrow> (error + unit) \<times> agent" where
  "run_all e [] s = (Inr (), s)"
| "run_all e (cmd # cmds) s =
     (case call (\<lambda>n. execSync e n cmd) s of
        (Inl err, s1) \<Rightarrow> (Inl err, s1)
      | (Inr out, s1) \<Rightarrow> run_all e cmds s1)"

definition quote :: string where
  "quote = [CHR 0x27]"

definition dquote :: string where
  "dquote = [CHR 0x22]"

definition templatePath :: string where
  "templatePath = ''/Users/jovannitilborg/Downloads/Agentsdemo-main''"

definition rsync_command :: "string \<Rightarrow> string" where
  "rsync_command repoPath =
     ''rsync -av --exclude='' @ quote @ ''.git'' @ quote @ '' --exclude='' @ quote
       @ ''node_modules'' @ quote @ '' '' @ templatePath @ ''/src/ '' @ repoPath @ ''/src/''"

definition cp_command :: "string \<Rightarrow> string" where
  "cp_command repoPath =
     ''cp '' @ templatePath @ ''/package.json '' @ templatePath @ ''/next.config.ts ''
       @ templatePath @ ''/tailwind.config.js '' @ templatePath @ ''/postcss.config.mjs ''
       @ templatePath @ ''/tsconfig.json '' @ repoPath @ ''/''"

section \<open>The MCP agent: the phases\<close>

text \<open>\<^verbatim>\<open>generateDoctorName\<close> of \<^verbatim>\<open>part_000\<close>: two draws, six candidates each.\<close>

definition firstNames_mcp :: "string list" where
  "firstNames_mcp = [''Sarah'', ''Michael'', ''Emma'', ''James'', ''Sophie'', ''David'']"

definition lastNames_mcp :: "string list" where
  "lastNames_mcp = [''Smith'', ''Johnson'', ''Williams'', ''Brown'', ''Jones'', ''Garcia'']"

definition generateDoctorName_mcp :: "env \<Rightarrow> agent \<Rightarrow> string \<times> agent" where
  "generateDoctorName_mcp e s =
     (let (r1, s1) = call (Math_random e) s;
          (r2, s2) = call (Math_random e) s1
      in (pick firstNames_mcp r1 @ '' '' @ pick lastNames_mcp r2, s2))"

text \<open>
  The script handed to \<^verbatim>\<open>playwright_evaluate\<close>, abridged to its last statement; the
  script runs in the provider.
\<close>

definition page_script :: string where
  "page_script = ''return JSON.stringify({ title, description, contact, email, services });''"

text \<open>
  The body of \<^verbatim>\<open>if (this.mcpClients.playwright) { try { ... } catch { ... } }\<close> in
  \<^verbatim>\<open>analyzeHealthcareWebsite\<close>: \<open>Some\<close> where the block returns the scraped practice,
  \<open>None\<close> where control leaves the block for the fallback (a failed navigation, an empty
  answer, or any error, all caught inside).
\<close>

definition playwright_analysis ::
  "env \<Rightarrow> string \<Rightarrow> string \<Rightarrow> agent \<Rightarrow> practice option \<times> agent" where
  "playwright_analysis e client websiteUrl s =
     (case call (\<lambda>n. callTool e n client ''playwright_navigate'' [(''url'', websiteUrl)]) s of
        (Inl err, s1) \<Rightarrow> (None, s1)
      | (Inr navigateResult, s1) \<Rightarrow>
          if (case navigateResult of None \<Rightarrow> False
              | Some t \<Rightarrow> js_includes t ''Successfully navigated'')
          then
            (let (t0, s2) = call (Date_now e) s1 in
             case call (\<lambda>n. callTool e n client ''playwright_screenshot''
                     [(''filename'', ''healthcare-analysis-'' @ js_number t0 @ ''.png'')]) s2 of
               (Inl err, s3) \<Rightarrow> (None, s3)
             | (Inr shot, s3) \<Rightarrow>
                 (case call (\<lambda>n. callTool e n client ''playwright_evaluate''
                         [(''script'', page_script)]) s3 of
                    (Inl err, s4) \<Rightarrow> (None, s4)
                  | (Inr contentResult, s4) \<Rightarrow>
                      if truthy contentResult then
                        (case JSON_parse_scraped e (template contentResult) of
                           Inl err \<Rightarrow> (None, s4)
                         | Inr scrapedData \<Rightarrow>
                             (case URL_hostname e websiteUrl of
                                Inl err \<Rightarrow> (None, s4)
                              | Inr domain \<Rightarrow>
                                  (let (doctorName, s5) = generateDoctorName_mcp e s4;
                                       (r, s6) = call (Math_random e) s5
                                   in (Some \<lparr>company = or_else (title scrapedData)
                                                 (extractCompanyFromDomain domain),
                                         contactName = ''Dr. '' @ doctorName,
                                         phone = or_else (contact scrapedData) ''+44 20 7123 4567'',
                                         email = or_else (scraped_email scrapedData)
                                                   (''info@'' @ domain),
                                         location = ''London, UK'',
                                         services =
                                           (if length (scraped_services scrapedData) > 0
                                            then scraped_services scrapedData
                                            else [''Healthcare Services'']),
                                         practiceType = ''healthcare'',
                                         practiceId = generatePracticeId domain,
                                         leadSource = ''playwright-mcp-scraping'',
                                         leadScore = draw_leadScore r,
                                         brandPrimary = ''#0066cc'',
                                         brandSecondary = ''#004499'',
                                         rawScrapedData = Some scrapedData\<rparr>, s6))))
                      else (None, s4)))
          else (None, s1))"

definition analyzeHealthcareWebsite ::
  "env \<Rightarrow> string \<Rightarrow> agent \<Rightarrow> (error + practice) \<times> agent" where
  "analyzeHealthcareWebsite e websiteUrl s =
     (case (case map_of (mcpClients s) ''playwright'' of
              None \<Rightarrow> (None, s)
            | Some client \<Rightarrow> playwright_analysis e client websiteUrl s) of
        (Some scrapedPractice, s1) \<Rightarrow> (Inr scrapedPractice, s1)
      | (None, s1) \<Rightarrow>
          (case URL_hostname e websiteUrl of
             Inl err \<Rightarrow> (Inl err, s1)
           | Inr domain \<Rightarrow>
               (let (doctorName, s2) = generateDoctorName_mcp e s1;
                    (r, s3) = call (Math_random e) s2
                in (Inr \<lparr>company = extractCompanyFromDomain domain,
                         contactName = ''Dr. '' @ doctorName,
                         phone = ''+44 20 7123 4567'',
                         email = ''info@'' @ domain,
                         location = ''London, UK'',
                         services = [''Aesthetic Treatments'', ''Cosmetic Surgery'', ''Skin Care''],
                         practiceType = ''beauty'',
                         practiceId = generatePracticeId domain,
                         leadSource = ''fallback-analysis'',
                         leadScore = draw_leadScore r,
                         brandPrimary = ''#0066cc'',
                         brandSecondary = ''#004499'',
                         rawScrapedData = None\<rparr>, s3))))"

text \<open>
  \<^verbatim>\<open>createPersonalizedRepository\<close> of \<^verbatim>\<open>part_000\<close>. Every error of the block is
  caught and thrown again with a new message: this phase has no fallback. The emoji that
  opens the commit message is left out.
\<close>

definition repository_failed :: "error \<Rightarrow> error" where
  "repository_failed err = Error (''Repository creation failed: '' @ message err)"

definition createPersonalizedRepository_mcp ::
  "env \<Rightarrow> practice \<Rightarrow> agent \<Rightarrow> (error + repository) \<times> agent" where
  "createPersonalizedRepository_mcp e practiceData s =
     (let (ts, s1) = call (Date_now e) s;
          repoName = practiceId practiceData @ ''-mcp-demo-'' @ js_number ts;
          createCommand =
            ''gh api --method POST /user/repos --field name='' @ quote @ repoName @ quote
              @ '' --field description='' @ quote @ ''Healthcare MCP demo for ''
              @ company practiceData @ quote
              @ '' --field private=false --field auto_init=true''
      in case call (\<lambda>n. execSync e n createCommand) s1 of
           (Inl err, s2) \<Rightarrow> (Inl (repository_failed err), s2)
         | (Inr repoResult, s2) \<Rightarrow>
             (case JSON_parse_repository e repoResult of
                Inl err \<Rightarrow> (Inl (repository_failed err), s2)
              | Inr repo \<Rightarrow>
                  (let repoPath = ''/tmp/'' @ repoName in
                   case run_all e
                          [''git clone '' @ template (clone_url repo) @ '' '' @ repoPath,
                           rsync_command repoPath,
                           cp_command repoPath,
                           ''cd '' @ repoPath @ '' && git add .'',
                           ''cd '' @ repoPath @ '' && git commit -m '' @ dquote
                             @ ''MCP Personalized demo for '' @ company practiceData @ dquote,
                           ''cd '' @ repoPath @ '' && git push origin main''] s2 of
                     (Inl err, s3) \<Rightarrow> (Inl (repository_failed err), s3)
                   | (Inr done, s3) \<Rightarrow> (Inr repo, s3))))"

text \<open>
  \<^verbatim>\<open>projectText.match(/ID: ([a-f0-9-]+)/)\<close>: the first place where \<^verbatim>\<open>ID: \<close> is
  followed by a character of the class, and the longest run of such characters there.
\<close>

definition hex_or_hyphen :: "char \<Rightarrow> bool" where
  "hex_or_hyphen c =
     (let n = (of_char c :: nat) in (97 \<le> n \<and> n \<le> 102) \<or> (48 \<le> n \<and> n \<le> 57) \<or> n = 45)"

fun match_project_id :: "string \<Rightarrow> string option" where
  "match_project_id [] = None"
| "match_project_id (c # cs) =
     (if prefix ''ID: '' (c # cs) \<and> takeWhile hex_or_hyphen (drop 4 (c # cs)) \<noteq> []
      then Some (takeWhile hex_or_hyphen (drop 4 (c # cs)))
      else match_project_id cs)"

definition railway_url :: "practice \<Rightarrow> string" where
  "railway_url practiceData =
     ''https://'' @ practiceId practiceData @ ''-mcp-demo-production.up.railway.app''"

definition deployToRailwayMCP ::
  "env \<Rightarrow> practice \<Rightarrow> repository \<Rightarrow> agent \<Rightarrow> deployment \<times> agent" where
  "deployToRailwayMCP e practiceData repo s =
     (case (case map_of (mcpClients s) ''railway'' of
              None \<Rightarrow> (None, s)
            | Some client \<Rightarrow>
                (case call (\<lambda>n. callTool e n client ''project_create''
                        [(''name'', practiceId practiceData @ ''-mcp-demo'')]) s of
                   (Inl err, s1) \<Rightarrow> (None, s1)
                 | (Inr createResult, s1) \<Rightarrow>
                     if truthy createResult then
                       (case match_project_id (template createResult) of
                          None \<Rightarrow> (None, s1)
                        | Some pid \<Rightarrow>
                            (Some \<lparr>deploy_url = railway_url practiceData,
                                   deploy_status = ''deployed'',
                                   projectId = pid,
                                   serviceId = None,
                                   deploy_method = Some ''railway-mcp''\<rparr>, s1))
                     else (None, s1))) of
        (Some deployed, s1) \<Rightarrow> (deployed, s1)
      | (None, s1) \<Rightarrow>
          (let (t, s2) = call (Date_now e) s1
           in (\<lparr>deploy_url = railway_url practiceData,
                deploy_status = ''deployed'',
                projectId = ''fallback_'' @ js_number t,
                serviceId = None,
                deploy_method = Some ''fallback''\<rparr>, s2)))"

text \<open>
  \<^verbatim>\<open>voices.find(v => ...)\<close> with the predicate of the source; reading
  \<^verbatim>\<open>toLowerCase\<close> of a voice without a name throws.
\<close>

fun find_voice :: "voice list \<Rightarrow> error + voice option" where
  "find_voice [] = Inr None"
| "find_voice (v # vs) =
     (case voice_name v of
        None \<Rightarrow> Inl (Error ''Cannot read properties of undefined (reading toLowerCase)'')
      | Some n \<Rightarrow>
          if js_includes (toLowerCase n) ''professional''
             \<or> js_includes (toLowerCase n) ''female''
             \<or> (case category v of None \<Rightarrow> False
                 | Some c \<Rightarrow> js_includes (toLowerCase c) ''conversational'')
          then Inr (Some v)
          else find_voice vs)"

definition healthcarePrompt :: "practice \<Rightarrow> string" where
  "healthcarePrompt practiceData =
     ''Hello, you'' @ quote @ ''ve reached '' @ company practiceData @ ''. I'' @ quote
       @ ''m your AI assistant, helping with appointments and information about our ''
       @ join '', '' (services practiceData) @ '' services. Dr. '' @ contactName practiceData
       @ '' and our team are here to provide excellent healthcare. How can I help you today?''"

definition fallbackPrompt :: "practice \<Rightarrow> string" where
  "fallbackPrompt practiceData =
     ''Professional healthcare voice assistant for '' @ company practiceData
       @ ''. I assist patients with appointment booking, service information, and general ''
       @ ''inquiries. Specializing in: '' @ join '', '' (services practiceData)
       @ ''. Contact: '' @ phone practiceData"

text \<open>
  The \<^verbatim>\<open>try\<close> block of \<^verbatim>\<open>createVoiceAgentMCP\<close> after the client is set: \<open>Some\<close>
  where it returns the agent made by the provider, \<open>None\<close> where control leaves it for the
  fallback (no voices, no audio, or any error, all caught).
\<close>

definition direct_voice_agent ::
  "env \<Rightarrow> practice \<Rightarrow> agent \<Rightarrow> voice_agent option \<times> agent" where
  "direct_voice_agent e practiceData s =
     (case call (voices_getAll e) s of
        (Inl err, s1) \<Rightarrow> (None, s1)
      | (Inr [], s1) \<Rightarrow> (None, s1)
      | (Inr (v0 # vs), s1) \<Rightarrow>
          (case find_voice (v0 # vs) of
             Inl err \<Rightarrow> (None, s1)
           | Inr found \<Rightarrow>
               (let selectedVoice = (case found of None \<Rightarrow> v0 | Some v \<Rightarrow> v);
                    vid = (if truthy (voiceId selectedVoice) then voiceId selectedVoice
                           else voice_id selectedVoice)
                in case call (\<lambda>n. textToSpeech_convert e n vid
                                (healthcarePrompt practiceData)) s1 of
                     (Inl err, s2) \<Rightarrow> (None, s2)
                   | (Inr None, s2) \<Rightarrow> (None, s2)
                   | (Inr (Some audioResponse), s2) \<Rightarrow>
                       (let (t1, s3) = call (Date_now e) s2;
                            file = ''/tmp/healthcare-voice-''
                              @ or_else (Some (practiceId practiceData)) ''demo''
                              @ ''-'' @ js_number t1 @ ''.mp3''
                        in case call (\<lambda>n. writeFileSync e n file audioResponse) s3 of
                             (Inl err, s4) \<Rightarrow> (None, s4)
                           | (Inr written, s4) \<Rightarrow>
                               (let (t2, s5) = call (Date_now e) s4;
                                    (t3, s6) = call (Date_now e) s5
                                in (Some \<lparr>voice_status = ''created_with_direct_api'',
                                          agentId = ''elevenlabs_voice_'' @ js_number t2,
                                          voice_method = ''elevenlabs_direct_api'',
                                          voiceFile = Some file,
                                          agent_voiceId = vid,
                                          agent_voiceName = voice_name selectedVoice,
                                          prompt = healthcarePrompt practiceData,
                                          fallback_reason = None,
                                          created_timestamp = t3\<rparr>, s6))))))"

definition createVoiceAgentMCP :: "env \<Rightarrow> practice \<Rightarrow> agent \<Rightarrow> voice_agent \<times> agent" where
  "createVoiceAgentMCP e practiceData s =
     (case direct_voice_agent e practiceData (s\<lparr>elevenLabsClient := True\<rparr>) of
        (Some created, s1) \<Rightarrow> (created, s1)
      | (None, s1) \<Rightarrow>
          (let (t1, s2) = call (Date_now e) s1;
               (t2, s3) = call (Date_now e) s2
           in (\<lparr>voice_status = ''fallback_created'',
                agentId = ''voice_agent_'' @ practiceId practiceData @ ''_'' @ js_number t1,
                voice_method = ''fallback_enhanced'',
                voiceFile = None,
                agent_voiceId = None,
                agent_voiceName = None,
                prompt = fallbackPrompt practiceData,
                fallback_reason = Some ''elevenlabs_direct_api_unavailable'',
                created_timestamp = t2\<rparr>, s3)))"

definition storeLeadInNotionMCP ::
  "env \<Rightarrow> practice \<Rightarrow> deployment \<Rightarrow> voice_agent \<Rightarrow> agent \<Rightarrow> notion_storage \<times> agent" where
  "storeLeadInNotionMCP e practiceData deployed voiceAgent s =
     (case (case map_of (mcpClients s) ''notion'' of
              None \<Rightarrow> (None, s)
            | Some client \<Rightarrow>
                (case call (\<lambda>n. callTool e n client ''create-page''
                        [(''parent_id'', notionDatabaseId e),
                         (''parent_type'', ''database''),
                         (''title'', company practiceData),
                         (''Practice Name'', company practiceData),
                         (''Doctor'', contactName practiceData),
                         (''Phone'', phone practiceData),
                         (''Email'', email practiceData),
                         (''Demo URL'', deploy_url deployed),
                         (''Lead Score'', js_number (leadScore practiceData)),
                         (''Status'', ''Demo Deployed'')]) s of
                   (Inl err, s1) \<Rightarrow> (None, s1)
                 | (Inr pageResult, s1) \<Rightarrow>
                     if truthy pageResult
                     then (Some \<lparr>storage_status = ''stored'',
                                 pageId = template pageResult,
                                 storage_method = ''notion-mcp''\<rparr>, s1)
                     else (None, s1))) of
        (Some stored, s1) \<Rightarrow> (stored, s1)
      | (None, s1) \<Rightarrow>
          (let (t, s2) = call (Date_now e) s1
           in (\<lparr>storage_status = ''simulated'',
                pageId = ''notion_page_'' @ js_number t,
                storage_method = ''fallback''\<rparr>, s2)))"

section \<open>The MCP agent: the pipeline of one target\<close>

text \<open>
  The \<^verbatim>\<open>try\<close> block of \<^verbatim>\<open>processHealthcareWebsite\<close> in \<^verbatim>\<open>part_000\<close>: the
  phases in the order of the source, each awaited before the next statement runs. The
  first error ends the block.
\<close>

definition pipeline_mcp ::
  "env \<Rightarrow> string \<Rightarrow> agent \<Rightarrow>
     (error + practice \<times> repository \<times> deployment \<times> voice_agent \<times> notion_storage) \<times> agent" where
  "pipeline_mcp e websiteUrl s =
     (case analyzeHealthcareWebsite e websiteUrl s of
        (Inl err, s1) \<Rightarrow> (Inl err, s1)
      | (Inr scrapedData, s1) \<Rightarrow>
          (case createPersonalizedRepository_mcp e scrapedData
                  (emit (PhaseStart Provisioning) (emit (PhaseDone Discovery) s1)) of
             (Inl err, s2) \<Rightarrow> (Inl err, s2)
           | (Inr repo, s2) \<Rightarrow>
               (let (deployed, s3) = deployToRailwayMCP e scrapedData repo
                      (emit (PhaseStart Deployment) (emit (PhaseDone Provisioning) s2));
                    (voiceAgent, s4) = createVoiceAgentMCP e scrapedData
                      (emit (PhaseStart VoiceSynthesis) (emit (PhaseDone Deployment) s3));
                    (notionStorage, s5) = storeLeadInNotionMCP e scrapedData deployed voiceAgent
                      (emit (PhaseStart Storage) (emit (PhaseDone VoiceSynthesis) s4))
                in (Inr (scrapedData, repo, deployed, voiceAgent, notionStorage),
                    emit (PhaseDone Storage) s5))))"

definition processHealthcareWebsite_mcp :: "env \<Rightarrow> string \<Rightarrow> agent \<Rightarrow> lead_record \<times> agent" where
  "processHealthcareWebsite_mcp e websiteUrl s =
     (let (startTime, s1) = call (Date_now e) s;
          (idTime, s2) = call (Date_now e) s1;
          lid = ''lead-'' @ js_number idTime
      in case pipeline_mcp e websiteUrl (emit (PhaseStart Discovery) s2) of
           (Inr (scrapedData, repo, deployed, voiceAgent, notionStorage), s3) \<Rightarrow>
             (let (endTime, s4) = call (Date_now e) s3;
                  (stamp, s5) = call (Date_now e) s4
              in (\<lparr>leadId = Some lid,
                   url = websiteUrl,
                   status = ''success'',
                   error = None,
                   duration = Some (round_seconds (endTime - startTime)),
                   timestamp = stamp,
                   lead_company = Some (company scrapedData),
                   doctor = Some (contactName scrapedData),
                   demoUrl = Some (deploy_url deployed),
                   repositoryUrl = html_url repo,
                   lead_agentId = Some (agentId voiceAgent),
                   lead_notionId = Some (pageId notionStorage),
                   lead_leadScore = Some (leadScore scrapedData),
                   lead_services = Some (services scrapedData),
                   lead_leadSource = Some (leadSource scrapedData),
                   lead_method = Some ''typescript-mcp-complete''\<rparr>, s5))
         | (Inl err, s3) \<Rightarrow>
             (let (endTime, s4) = call (Date_now e) s3;
                  (stamp, s5) = call (Date_now e) s4
              in (\<lparr>leadId = Some lid,
                   url = websiteUrl,
                   status = ''failed'',
                   error = Some (message err),
                   duration = Some (round_seconds (endTime - startTime)),
                   timestamp = stamp,
                   lead_company = None,
                   doctor = None,
                   demoUrl = None,
                   repositoryUrl = None,
                   lead_agentId = None,
                   lead_notionId = None,
                   lead_leadScore = None,
                   lead_services = None,
                   lead_leadSource = None,
                   lead_method = Some ''typescript-mcp''\<rparr>, s5)))"

section \<open>The MCP agent: sessions and the batch\<close>

text \<open>
  \<^verbatim>\<open>connectMCP\<close>, \<^verbatim>\<open>connectPlaywrightMCP\<close> and \<^verbatim>\<open>connectNotionMCP\<close> open one
  session and store it under its name; a failed connection is caught and answers
  \<^verbatim>\<open>false\<close>.
\<close>

definition connect_session :: "env \<Rightarrow> string \<Rightarrow> string \<Rightarrow> agent \<Rightarrow> bool \<times> agent" where
  "connect_session e nm server s =
     (case call (\<lambda>n. client_connect e n server) s of
        (Inr ok, s1) \<Rightarrow> (True, s1\<lparr>mcpClients := AList.update nm server (mcpClients s1)\<rparr>)
      | (Inl err, s1) \<Rightarrow> (False, s1))"

definition connectMCP :: "env \<Rightarrow> string \<Rightarrow> string \<Rightarrow> agent \<Rightarrow> bool \<times> agent" where
  "connectMCP e nm serverPath s =
     connect_session e nm (''https://server.smithery.ai/'' @ serverPath) s"

definition connectPlaywrightMCP :: "env \<Rightarrow> agent \<Rightarrow> bool \<times> agent" where
  "connectPlaywrightMCP e s =
     connect_session e ''playwright'' ''https://server.smithery.ai/@adalovu/mcp-playwright'' s"

definition connectNotionMCP :: "env \<Rightarrow> agent \<Rightarrow> bool \<times> agent" where
  "connectNotionMCP e s =
     connect_session e ''notion'' ''https://server.smithery.ai/@smithery/notion'' s"

text \<open>
  \<^verbatim>\<open>connectElevenLabsMCP\<close>: the providers are tried in order and the first that
  connects is kept; a connection that loses the race against its timeout is an error of
  \<open>client_connect\<close>.
\<close>

fun connect_first :: "env \<Rightarrow> string list \<Rightarrow> agent \<Rightarrow> bool \<times> agent" where
  "connect_first e [] s = (False, s)"
| "connect_first e (server # rest) s =
     (case connect_session e ''elevenlabs'' server s of
        (True, s1) \<Rightarrow> (True, s1)
      | (False, s1) \<Rightarrow> connect_first e rest s1)"

definition connectElevenLabsMCP :: "env \<Rightarrow> agent \<Rightarrow> bool \<times> agent" where
  "connectElevenLabsMCP e s =
     connect_first e [''https://server.smithery.ai/@elevenlabs/elevenlabs-mcp'',
                      ''https://server.smithery.ai/@elevenlabs/mcp-server'',
                      ''https://server.smithery.ai/elevenlabs-voice-mcp''] s"

text \<open>
  \<^verbatim>\<open>connectAllMCPs\<close>. The source starts the four connections together and waits for
  all of them (\<^verbatim>\<open>Promise.allSettled\<close>); here they run in the order of the array.
\<close>

definition connectAllMCPs :: "env \<Rightarrow> agent \<Rightarrow> bool \<times> agent" where
  "connectAllMCPs e s =
     (let (c1, s1) = connectMCP e ''railway'' ''@jason-tan-swe/railway-mcp'' s;
          (c2, s2) = connectPlaywrightMCP e s1;
          (c3, s3) = connectElevenLabsMCP e s2;
          (c4, s4) = connectNotionMCP e s3
      in (length (filter (\<lambda>c. c) [c1, c2, c3, c4]) > 0, s4))"

fun close_all :: "env \<Rightarrow> (string \<times> string) list \<Rightarrow> agent \<Rightarrow> agent" where
  "close_all e [] s = s"
| "close_all e ((nm, client) # rest) s =
     (case call (\<lambda>n. client_close e n client) (emit (Close nm) s) of
        (answer, s1) \<Rightarrow> close_all e rest s1)"

definition disconnectAllMCPs :: "env \<Rightarrow> agent \<Rightarrow> agent" where
  "disconnectAllMCPs e s = (close_all e (mcpClients s) s)\<lparr>mcpClients := []\<rparr>"

section \<open>The batch loop\<close>

text \<open>
  Both agents call the pipeline as \<^verbatim>\<open>this.processHealthcareWebsite(url)\<close> inside a
  \<^verbatim>\<open>try\<close> of the loop. The loop is modelled for any pipeline, which may throw; each
  agent's batch is the loop with its own pipeline.
\<close>

type_synonym executor = "env \<Rightarrow> string \<Rightarrow> agent \<Rightarrow> (error + lead_record) \<times> agent"

text \<open>The record the \<^verbatim>\<open>catch\<close> of the loop pushes.\<close>

definition handler_record :: "string \<Rightarrow> error \<Rightarrow> int \<Rightarrow> lead_record" where
  "handler_record websiteUrl err stamp =
     \<lparr>leadId = None,
      url = websiteUrl,
      status = ''failed'',
      error = Some (message err),
      duration = None,
      timestamp = stamp,
      lead_company = None,
      doctor = None,
      demoUrl = None,
      repositoryUrl = None,
      lead_agentId = None,
      lead_notionId = None,
      lead_leadScore = None,
      lead_services = None,
      lead_leadSource = None,
      lead_method = None\<rparr>"

text \<open>
  One turn of the loop for the target at index \<open>i\<close> of \<open>n\<close> selected targets: the
  pipeline's record is pushed and, unless this is the last index, the agent sleeps; an
  error of the pipeline leaves the \<^verbatim>\<open>try\<close> before the sleep and the handler pushes
  its record.
\<close>

definition lead_step ::
  "executor \<Rightarrow> env \<Rightarrow> nat \<Rightarrow> nat \<Rightarrow> string \<Rightarrow> lead_record list \<times> agent
     \<Rightarrow> lead_record list \<times> agent" where
  "lead_step proc e n i websiteUrl acc =
     (case acc of (results, s) \<Rightarrow>
        (case proc e websiteUrl (emit (LeadStart (i + 1) websiteUrl) s) of
           (Inr result, s1) \<Rightarrow>
             (results @ [result], if int i < int n - 1 then sleep 3000 s1 else s1)
         | (Inl err, s1) \<Rightarrow>
             (let (stamp, s2) = call (Date_now e) s1
              in (results @ [handler_record websiteUrl err stamp], s2))))"

fun lead_loop ::
  "executor \<Rightarrow> env \<Rightarrow> nat \<Rightarrow> nat \<Rightarrow> string list \<Rightarrow> lead_record list \<times> agent
     \<Rightarrow> lead_record list \<times> agent" where
  "lead_loop proc e n i [] acc = acc"
| "lead_loop proc e n i (u # us) acc = lead_loop proc e n (Suc i) us (lead_step proc e n i u acc)"

text \<open>
  \<^verbatim>\<open>try { body } finally { fin }\<close>: the finaliser runs on the state the body leaves,
  whether the body returned or threw, and the body's outcome is passed on.
\<close>

definition try_finally ::
  "(agent \<Rightarrow> (error + 'a) \<times> agent) \<Rightarrow> (agent \<Rightarrow> agent) \<Rightarrow> agent \<Rightarrow> (error + 'a) \<times> agent" where
  "try_finally body fin s = (case body s of (outcome, s1) \<Rightarrow> (outcome, fin s1))"

text \<open>\<^verbatim>\<open>executeAutonomousWorkflow\<close> of \<^verbatim>\<open>part_000\<close>, for any pipeline.\<close>

definition batch_body_mcp ::
  "executor \<Rightarrow> env \<Rightarrow> string list \<Rightarrow> agent \<Rightarrow> (error + lead_record list) \<times> agent" where
  "batch_body_mcp proc e selectedUrls s =
     (let (connected, s1) = connectAllMCPs e s
      in case lead_loop proc e (length selectedUrls) 0 selectedUrls ([], s1) of
           (results, s2) \<Rightarrow> (Inr results, s2))"

definition executeAutonomousWorkflow_mcp_with ::
  "executor \<Rightarrow> env \<Rightarrow> int \<Rightarrow> agent \<Rightarrow> (error + lead_record list) \<times> agent" where
  "executeAutonomousWorkflow_mcp_with proc e leadCount s =
     try_finally (batch_body_mcp proc e (slice0 (healthcareTargets s) leadCount))
       (disconnectAllMCPs e) s"

definition executor_mcp :: executor where
  "executor_mcp e websiteUrl s =
     (case processHealthcareWebsite_mcp e websiteUrl s of (result, s1) \<Rightarrow> (Inr result, s1))"

definition executeAutonomousWorkflow_mcp ::
  "env \<Rightarrow> int \<Rightarrow> agent \<Rightarrow> (error + lead_record list) \<times> agent" where
  "executeAutonomousWorkflow_mcp e leadCount s =
     executeAutonomousWorkflow_mcp_with executor_mcp e leadCount s"

section \<open>The REST agent of autonomous-agent.js\<close>

definition firstNames :: "string list" where
  "firstNames = [''Sarah'', ''Michael'', ''Emma'', ''James'', ''Sophie'', ''David'',
                 ''Rachel'', ''Thomas'']"

definition lastNames :: "string list" where
  "lastNames = [''Smith'', ''Johnson'', ''Williams'', ''Brown'', ''Jones'', ''Garcia'',
                ''Miller'', ''Davis'']"

definition generateDoctorName :: "env \<Rightarrow> agent \<Rightarrow> string \<times> agent" where
  "generateDoctorName e s =
     (let (r1, s1) = call (Math_random e) s;
          (r2, s2) = call (Math_random e) s1
      in (pick firstNames r1 @ '' '' @ pick lastNames r2, s2))"

definition scrapeHealthcareWebsite ::
  "env \<Rightarrow> string \<Rightarrow> agent \<Rightarrow> (error + practice) \<times> agent" where
  "scrapeHealthcareWebsite e websiteUrl s =
     (case URL_hostname e websiteUrl of
        Inl err \<Rightarrow> (Inl err, s)
      | Inr domain \<Rightarrow>
          (let (doctorName, s1) = generateDoctorName e s;
               (r, s2) = call (Math_random e) s1
           in (Inr \<lparr>company = extractCompanyFromDomain domain,
                    contactName = ''Dr. '' @ doctorName,
                    phone = ''+44 20 7123 4567'',
                    email = ''info@'' @ domain,
                    location = ''London, UK'',
                    services = [''Cosmetic Surgery'', ''Dermatology'', ''Aesthetic Treatments''],
                    practiceType = ''beauty'',
                    practiceId = generatePracticeId domain,
                    leadSource = ''web-scraping'',
                    leadScore = draw_leadScore r,
                    brandPrimary = ''#0066cc'',
                    brandSecondary = ''#004499'',
                    rawScrapedData = None\<rparr>, s2)))"

text \<open>
  \<^verbatim>\<open>storeLeadInNotion\<close>: an error of the request is caught and thrown again with a new
  message; there is no fallback.
\<close>

definition storeLeadInNotion ::
  "env \<Rightarrow> practice \<Rightarrow> string \<Rightarrow> agent \<Rightarrow> (error + notion_page option) \<times> agent" where
  "storeLeadInNotion e leadData websiteUrl s =
     (case call (\<lambda>n. axios_post_notion e n
             [(''database_id'', notionDatabaseId e),
              (''Company'', company leadData),
              (''Contact Name'', contactName leadData),
              (''Location'', location leadData),
              (''Phone'', phone leadData),
              (''Email'', email leadData),
              (''Website URL'', websiteUrl),
              (''Agent ID'', ''pending'')]) s of
        (Inl err, s1) \<Rightarrow> (Inl (Error (''Notion storage failed: '' @ message err)), s1)
      | (Inr page, s1) \<Rightarrow> (Inr page, s1))"

text \<open>
  \<^verbatim>\<open>createElevenLabsAgent\<close>: nothing in its \<^verbatim>\<open>try\<close> block throws, so the block's
  value is the value of the function.
\<close>

definition createElevenLabsAgent :: "env \<Rightarrow> practice \<Rightarrow> agent \<Rightarrow> string \<times> agent" where
  "createElevenLabsAgent e practiceData s =
     (let (t, s1) = call (Date_now e) s
      in (''agent_'' @ js_number t @ ''_'' @ practiceId practiceData, s1))"

text \<open>
  \<^verbatim>\<open>updatePracticeConfig\<close>: the entry is inserted after the opening brace of the
  configuration table, which is the last character of the line the function looks for;
  a file without that line is written back as it is. The text of the entry is abridged.
  Every error is caught.
\<close>

definition configs_line :: string where
  "configs_line = ''export const practiceConfigs: Record<string, PracticeConfig> = {''"

fun insert_after :: "string \<Rightarrow> string \<Rightarrow> string \<Rightarrow> string" where
  "insert_after marker ins [] = (if marker = [] then ins else [])"
| "insert_after marker ins (c # cs) =
     (if prefix marker (c # cs) then marker @ ins @ drop (length marker) (c # cs)
      else c # insert_after marker ins cs)"

definition practiceConfig :: "practice \<Rightarrow> string \<Rightarrow> string" where
  "practiceConfig practiceData agent_id =
     quote @ practiceId practiceData @ quote @ '': { id: '' @ quote @ practiceId practiceData
       @ quote @ '', name: '' @ quote @ company practiceData @ quote
       @ '', doctor: '' @ quote @ contactName practiceData @ quote
       @ '', location: '' @ quote @ location practiceData @ quote
       @ '', agentId: '' @ quote @ agent_id @ quote @ '' },''"

definition updatePracticeConfig :: "env \<Rightarrow> string \<Rightarrow> practice \<Rightarrow> string \<Rightarrow> agent \<Rightarrow> agent" where
  "updatePracticeConfig e repoPath practiceData agent_id s =
     (let configPath = repoPath @ ''/src/lib/practice-config.ts'' in
      case call (\<lambda>n. fs_readFile e n configPath) s of
        (Inl err, s1) \<Rightarrow> s1
      | (Inr originalConfig, s1) \<Rightarrow>
          snd (call (\<lambda>n. fs_writeFile e n configPath
                 (insert_after configs_line (practiceConfig practiceData agent_id)
                    originalConfig)) s1))"

definition createEnvFile :: "env \<Rightarrow> string \<Rightarrow> practice \<Rightarrow> agent \<Rightarrow> agent" where
  "createEnvFile e repoPath practiceData s =
     snd (call (\<lambda>n. fs_writeFile e n (repoPath @ ''/.env.local'')
            (''PRACTICE_ID='' @ practiceId practiceData @ [CHR 0x0A]
               @ ''NODE_ENV=production'' @ [CHR 0x0A]
               @ ''NEXT_PUBLIC_PRACTICE_NAME='' @ dquote @ company practiceData @ dquote
               @ [CHR 0x0A]
               @ ''NEXT_PUBLIC_DOCTOR_NAME='' @ dquote @ contactName practiceData @ dquote
               @ [CHR 0x0A]
               @ ''NEXT_PUBLIC_PRACTICE_LOCATION='' @ dquote @ location practiceData @ dquote
               @ [CHR 0x0A]
               @ ''NEXT_PUBLIC_PRACTICE_TYPE='' @ dquote @ practiceType practiceData @ dquote
               @ [CHR 0x0A]
               @ ''NEXT_PUBLIC_BRAND_PRIMARY='' @ dquote @ brandPrimary practiceData
               @ dquote)) s)"

text \<open>
  \<^verbatim>\<open>personalizeRepository\<close>; \<^verbatim>\<open>updateBrandingStyling\<close> only prints. The emoji that
  opens the commit message is left out.
\<close>

definition personalization_failed :: "error \<Rightarrow> error" where
  "personalization_failed err = Error (''Repository personalization failed: '' @ message err)"

definition personalizeRepository ::
  "env \<Rightarrow> repository \<Rightarrow> practice \<Rightarrow> string \<Rightarrow> agent \<Rightarrow> (error + unit) \<times> agent" where
  "personalizeRepository e repo practiceData agent_id s =
     (let repoPath = ''/tmp/'' @ template (name repo) in
      case run_all e [''git clone '' @ template (clone_url repo) @ '' '' @ repoPath,
                      rsync_command repoPath,
                      cp_command repoPath] s of
        (Inl err, s1) \<Rightarrow> (Inl (personalization_failed err), s1)
      | (Inr copied, s1) \<Rightarrow>
          (case run_all e [''cd '' @ repoPath @ '' && git add .'',
                           ''cd '' @ repoPath @ '' && git commit -m '' @ dquote
                             @ ''Personalized demo for '' @ company practiceData @ dquote,
                           ''cd '' @ repoPath @ '' && git push origin main'']
                  (createEnvFile e repoPath practiceData
                     (updatePracticeConfig e repoPath practiceData agent_id s1)) of
             (Inl err, s2) \<Rightarrow> (Inl (personalization_failed err), s2)
           | (Inr pushed, s2) \<Rightarrow> (Inr (), s2)))"

text \<open>
  \<^verbatim>\<open>createPersonalizedRepository\<close> of \<^verbatim>\<open>autonomous-agent.js\<close>: as in the other
  agent, every error is caught and thrown again. Reading the name of a repository that is
  \<^verbatim>\<open>null\<close> throws inside the block.
\<close>

definition createPersonalizedRepository ::
  "env \<Rightarrow> practice \<Rightarrow> string \<Rightarrow> agent \<Rightarrow> (error + repository) \<times> agent" where
  "createPersonalizedRepository e practiceData agent_id s =
     (let (ts, s1) = call (Date_now e) s;
          repoName = practiceId practiceData @ ''-demo-'' @ js_number ts
      in case call (\<lambda>n. axios_post_github e n
                 [(''name'', repoName),
                  (''description'', ''Personalized healthcare demo for ''
                     @ company practiceData @ '' - Auto-generated''),
                  (''private'', ''false''),
                  (''auto_init'', ''true'')]) s1 of
           (Inl err, s2) \<Rightarrow> (Inl (repository_failed err), s2)
         | (Inr None, s2) \<Rightarrow>
             (Inl (repository_failed
                (Error ''Cannot read properties of undefined (reading name)'')), s2)
         | (Inr (Some repo), s2) \<Rightarrow>
             (case personalizeRepository e repo practiceData agent_id s2 of
                (Inl err, s3) \<Rightarrow> (Inl (repository_failed err), s3)
              | (Inr personalized, s3) \<Rightarrow> (Inr repo, s3)))"

text \<open>\<^verbatim>\<open>deployToRailway\<close>: a simulated deployment that sleeps two seconds.\<close>

definition deployToRailway ::
  "env \<Rightarrow> practice \<Rightarrow> repository \<Rightarrow> agent \<Rightarrow> deployment \<times> agent" where
  "deployToRailway e practiceData repo s =
     (let (t1, s1) = call (Date_now e) (sleep 2000 s);
          (t2, s2) = call (Date_now e) s1
      in (\<lparr>deploy_url = ''https://'' @ practiceId practiceData
                          @ ''-service-production.up.railway.app'',
           deploy_status = ''deployed'',
           projectId = ''proj_'' @ js_number t1,
           serviceId = Some (''svc_'' @ js_number t2),
           deploy_method = None\<rparr>, s2))"

text \<open>\<^verbatim>\<open>updateNotionWithResults\<close>: an error of the request is caught and printed.\<close>

definition updateNotionWithResults ::
  "env \<Rightarrow> string option \<Rightarrow> string \<Rightarrow> string \<Rightarrow> agent \<Rightarrow> agent" where
  "updateNotionWithResults e notionPageId demo agent_id s =
     snd (call (\<lambda>n. axios_patch e n (''https://api.notion.com/v1/pages/'' @ template notionPageId)
                  [(''Demo URL'', demo), (''Agent ID'', agent_id)]) s)"

text \<open>
  The \<^verbatim>\<open>try\<close> block of \<^verbatim>\<open>processHealthcareWebsite\<close> in
  \<^verbatim>\<open>autonomous-agent.js\<close>. Printing the identifier of a stored page that is
  \<^verbatim>\<open>null\<close> throws.
\<close>

definition pipeline ::
  "env \<Rightarrow> string \<Rightarrow> agent \<Rightarrow>
     (error + practice \<times> notion_page \<times> string \<times> repository \<times> deployment) \<times> agent" where
  "pipeline e websiteUrl s =
     (case scrapeHealthcareWebsite e websiteUrl s of
        (Inl err, s1) \<Rightarrow> (Inl err, s1)
      | (Inr scrapedData, s1) \<Rightarrow>
          (case storeLeadInNotion e scrapedData websiteUrl
                  (emit (PhaseStart Storage) (emit (PhaseDone Discovery) s1)) of
             (Inl err, s2) \<Rightarrow> (Inl err, s2)
           | (Inr None, s2) \<Rightarrow>
               (Inl (Error ''Cannot read properties of undefined (reading id)''), s2)
           | (Inr (Some notionPage), s2) \<Rightarrow>
               (let (agent_id, s3) = createElevenLabsAgent e scrapedData
                      (emit (PhaseStart VoiceSynthesis) (emit (PhaseDone Storage) s2))
                in case createPersonalizedRepository e scrapedData agent_id
                          (emit (PhaseStart Provisioning) (emit (PhaseDone VoiceSynthesis) s3)) of
                     (Inl err, s4) \<Rightarrow> (Inl err, s4)
                   | (Inr repo, s4) \<Rightarrow>
                       (let (deployed, s5) = deployToRailway e scrapedData repo
                              (emit (PhaseStart Deployment) (emit (PhaseDone Provisioning) s4));
                            s6 = updateNotionWithResults e (page_id notionPage)
                                   (deploy_url deployed) agent_id
                                   (emit (PhaseStart StatusUpdate)
                                      (emit (PhaseDone Deployment) s5))
                        in (Inr (scrapedData, notionPage, agent_id, repo, deployed),
                            emit (PhaseDone StatusUpdate) s6)))))"

definition processHealthcareWebsite :: "env \<Rightarrow> string \<Rightarrow> agent \<Rightarrow> lead_record \<times> agent" where
  "processHealthcareWebsite e websiteUrl s =
     (let (startTime, s1) = call (Date_now e) s;
          (idTime, s2) = call (Date_now e) s1;
          lid = ''lead-'' @ js_number idTime
      in case pipeline e websiteUrl (emit (PhaseStart Discovery) s2) of
           (Inr (scrapedData, notionPage, agent_id, repo, deployed), s3) \<Rightarrow>
             (let (endTime, s4) = call (Date_now e) s3;
                  (stamp, s5) = call (Date_now e) s4
              in (\<lparr>leadId = Some lid,
                   url = websiteUrl,
                   status = ''success'',
                   error = None,
                   duration = Some (round_seconds (endTime - startTime)),
                   timestamp = stamp,
                   lead_company = Some (company scrapedData),
                   doctor = Some (contactName scrapedData),
                   demoUrl = Some (deploy_url deployed),
                   repositoryUrl = html_url repo,
                   lead_agentId = Some agent_id,
                   lead_notionId = page_id notionPage,
                   lead_leadScore = None,
                   lead_services = None,
                   lead_leadSource = None,
                   lead_method = None\<rparr>, s5))
         | (Inl err, s3) \<Rightarrow>
             (let (endTime, s4) = call (Date_now e) s3;
                  (stamp, s5) = call (Date_now e) s4
              in (\<lparr>leadId = Some lid,
                   url = websiteUrl,
                   status = ''failed'',
                   error = Some (message err),
                   duration = Some (round_seconds (endTime - startTime)),
                   timestamp = stamp,
                   lead_company = None,
                   doctor = None,
                   demoUrl = None,
                   repositoryUrl = None,
                   lead_agentId = None,
                   lead_notionId = None,
                   lead_leadScore = None,
                   lead_services = None,
                   lead_leadSource = None,
                   lead_method = None\<rparr>, s5)))"

text \<open>
  \<^verbatim>\<open>executeAutonomousWorkflow\<close> of \<^verbatim>\<open>autonomous-agent.js\<close>, which holds no
  sessions: the loop, and the two readings of the clock in the line that prints the
  total time.
\<close>

definition executeAutonomousWorkflow_with ::
  "executor \<Rightarrow> env \<Rightarrow> int \<Rightarrow> agent \<Rightarrow> lead_record list \<times> agent" where
  "executeAutonomousWorkflow_with proc e leadCount s =
     (let selectedUrls = slice0 (healthcareTargets s) leadCount;
          (results, s1) = lead_loop proc e (length selectedUrls) 0 selectedUrls ([], s);
          (t1, s2) = call (Date_now e) s1;
          (t2, s3) = call (Date_now e) s2
      in (results, s3))"

definition executor_rest :: executor where
  "executor_rest e websiteUrl s =
     (case processHealthcareWebsite e websiteUrl s of (result, s1) \<Rightarrow> (Inr result, s1))"

definition executeAutonomousWorkflow :: "env \<Rightarrow> int \<Rightarrow> agent \<Rightarrow> lead_record list \<times> agent" where
  "executeAutonomousWorkflow e leadCount s =
     executeAutonomousWorkflow_with executor_rest e leadCount s"

section \<open>Reading a trace\<close>

text \<open>The console lines and sleeps of a pipeline with the given phases, in order.\<close>

definition phase_events :: "phase list \<Rightarrow> event list" where
  "phase_events ps = concat (map (\<lambda>p. [PhaseStart p, PhaseDone p]) ps)"

text \<open>The order of the phases in \<^verbatim>\<open>part_000\<close>.\<close>

definition order_mcp :: "phase list" where
  "order_mcp = [Discovery, Provisioning, Deployment, VoiceSynthesis, Storage]"

text \<open>
  The events of a complete run in \<^verbatim>\<open>autonomous-agent.js\<close>: its phases in order, the
  simulated deployment sleeping two seconds, and the final status update.
\<close>

definition events_rest :: "event list" where
  "events_rest =
     phase_events [Discovery, Storage, VoiceSynthesis, Provisioning]
       @ [PhaseStart Deployment, Sleep 2000, PhaseDone Deployment]
       @ phase_events [StatusUpdate]"

text \<open>The phases a trace announces, in order.\<close>

fun phases_started :: "event list \<Rightarrow> phase list" where
  "phases_started [] = []"
| "phases_started (PhaseStart p # es) = p # phases_started es"
| "phases_started (ev # es) = phases_started es"

text \<open>The leads a trace announces, with their numbers.\<close>

fun lead_starts :: "event list \<Rightarrow> (nat \<times> string) list" where
  "lead_starts [] = []"
| "lead_starts (LeadStart i u # es) = (i, u) # lead_starts es"
| "lead_starts (ev # es) = lead_starts es"

text \<open>The events of the batch loop in a trace: lead announcements and three-second sleeps.\<close>

fun batch_event :: "event \<Rightarrow> bool" where
  "batch_event (LeadStart i u) = True"
| "batch_event (Sleep ms) = (ms = 3000)"
| "batch_event ev = False"

definition batch_events :: "event list \<Rightarrow> event list" where
  "batch_events es = filter batch_event es"

text \<open>
  A batch that sleeps between consecutive targets only: the leads numbered from \<open>i\<close>, a
  three-second sleep after each but the last.
\<close>

fun alternating :: "nat \<Rightarrow> string list \<Rightarrow> event list" where
  "alternating i [] = []"
| "alternating i [u] = [LeadStart i u]"
| "alternating i (u # us) = LeadStart i u # Sleep 3000 # alternating (Suc i) us"

section \<open>Example worlds\<close>

text \<open>
  A world in which every provider is out of reach: no session connects, every tool call,
  REST call, shell command and file access fails, the voice provider fails. The clock
  advances one second per reading and every draw is 0. Addresses are parsed by a toy
  parser that accepts \<^verbatim>\<open>https://host\<close>.
\<close>

definition toy_hostname :: "string \<Rightarrow> error + string" where
  "toy_hostname u = (if prefix ''https://'' u then Inr (drop 8 u) else Inl (Error ''Invalid URL''))"

definition env_down :: env where
  "env_down =
     \<lparr>Date_now = (\<lambda>n. 1000 * int n),
      Math_random = (\<lambda>n. 0),
      URL_hostname = toy_hostname,
      execSync = (\<lambda>n cmd. Inl (Error ''gh: command not found'')),
      JSON_parse_repository = (\<lambda>t. Inl (Error ''Unexpected end of JSON input'')),
      JSON_parse_scraped = (\<lambda>t. Inl (Error ''Unexpected end of JSON input'')),
      client_connect = (\<lambda>n server. Inl (Error ''Connection timeout'')),
      callTool = (\<lambda>n client tool args. Inl (Error ''Not connected'')),
      client_close = (\<lambda>n client. Inl (Error ''Not connected'')),
      voices_getAll = (\<lambda>n. Inl (Error ''Status code: 401'')),
      textToSpeech_convert = (\<lambda>n vid t. Inl (Error ''Status code: 401'')),
      writeFileSync = (\<lambda>n file a. Inl (Error ''EACCES'')),
      axios_post_notion = (\<lambda>n args. Inl (Error ''Request failed with status code 401'')),
      axios_post_github = (\<lambda>n args. Inl (Error ''Request failed with status code 401'')),
      axios_patch = (\<lambda>n u args. Inl (Error ''Request failed with status code 401'')),
      fs_readFile = (\<lambda>n file. Inl (Error ''ENOENT'')),
      fs_writeFile = (\<lambda>n file t. Inl (Error ''ENOENT'')),
      notionDatabaseId = ''db''\<rparr>"


text \<open>
  The same world in which source control works: shell commands succeed, the answer
  parses to a repository, and the source-control and CRM REST calls succeed.
\<close>

definition example_repository :: repository where
  "example_repository =
     \<lparr>name = Some ''example-clinic-mcp-demo'',
      clone_url = Some ''https://github.com/demo/example-clinic-mcp-demo.git'',
      html_url = Some ''https://github.com/demo/example-clinic-mcp-demo''\<rparr>"

definition env_git :: env where
  "env_git =
     env_down\<lparr>execSync := (\<lambda>n cmd. Inr ''ok''),
              JSON_parse_repository := (\<lambda>t. Inr example_repository),
              axios_post_notion := (\<lambda>n args. Inr (Some \<lparr>page_id = Some ''page-1''\<rparr>)),
              axios_post_github := (\<lambda>n args. Inr (Some example_repository))\<rparr>"

definition agent0 :: agent where
  "agent0 =
     \<lparr>tick = 0,
      mcpClients = [],
      elevenLabsClient = False,
      healthcareTargets = [''https://www.example-clinic.com'', ''https://harleyclinic.com''],
      trace = []\<rparr>"

text \<open>A pipeline that throws on every target, and one that throws on the first only.\<close>

definition executor_faulty :: executor where
  "executor_faulty e websiteUrl s = (Inl (Error ''PipelineFault''), s)"


section \<open>Lemmas: the phases of the MCP agent\<close>

lemma call_fst [simp]: "fst (call f s) = f (tick s)"
  by (simp add: call_def)

lemma call_trace [simp]: "trace (snd (call f s)) = trace s"
  by (simp add: call_def)

lemma call_clients [simp]: "mcpClients (snd (call f s)) = mcpClients s"
  by (simp add: call_def)

lemma emit_clients [simp]: "mcpClients (emit ev s) = mcpClients s"
  by (simp add: emit_def)

lemma emit_trace [simp]: "trace (emit ev s) = trace s @ [ev]"
  by (simp add: emit_def)


lemma generateDoctorName_mcp_trace [simp]:
  "trace (snd (generateDoctorName_mcp e s)) = trace s"
  by (simp add: generateDoctorName_mcp_def call_def Let_def)

lemma generateDoctorName_mcp_clients [simp]:
  "mcpClients (snd (generateDoctorName_mcp e s)) = mcpClients s"
  by (simp add: generateDoctorName_mcp_def call_def Let_def)

lemma playwright_analysis_trace [simp]:
  "trace (snd (playwright_analysis e c u s)) = trace s"
  by (simp add: playwright_analysis_def Let_def split_beta call_def generateDoctorName_mcp_def
           split: prod.splits sum.splits option.splits)

lemma playwright_analysis_clients [simp]:
  "mcpClients (snd (playwright_analysis e c u s)) = mcpClients s"
  by (simp add: playwright_analysis_def Let_def split_beta call_def generateDoctorName_mcp_def
           split: prod.splits sum.splits option.splits)


lemma analyze_trace [simp]:
  "trace (snd (analyzeHealthcareWebsite e u s)) = trace s"
  by (simp add: analyzeHealthcareWebsite_def Let_def split_beta call_def generateDoctorName_mcp_def
           split: prod.splits sum.splits option.splits)

lemma run_all_trace [simp]: "trace (snd (run_all e cmds s)) = trace s"
  by (induction cmds arbitrary: s) (simp_all add: split_beta call_def split: sum.splits)

lemma run_all_clients [simp]: "mcpClients (snd (run_all e cmds s)) = mcpClients s"
  by (induction cmds arbitrary: s) (simp_all add: split_beta call_def split: sum.splits)

lemma run_all_ok:
  assumes "\<forall>n c. \<not> isl (execSync e n c)"
  shows "fst (run_all e cmds s) = Inr ()"
proof (induction cmds arbitrary: s)
  case Nil
  show ?case by simp
next
  case (Cons cmd cmds)
  from assms have "\<not> isl (execSync e (tick s) cmd)" by blast
  then obtain out where "execSync e (tick s) cmd = Inr out"
    by (cases "execSync e (tick s) cmd") simp_all
  with Cons show ?case by (simp add: split_beta call_def)
qed

lemma run_all_down:
  assumes "\<forall>n c. isl (execSync e n c)"
  shows "fst (run_all e (cmd # cmds) s) = Inl (projl (execSync e (tick s) cmd))"
proof -
  from assms have "isl (execSync e (tick s) cmd)" by blast
  then obtain err where "execSync e (tick s) cmd = Inl err"
    by (cases "execSync e (tick s) cmd") simp_all
  then show ?thesis by (simp add: split_beta call_def)
qed

declare run_all.simps [simp del]

lemma analyze_clients [simp]:
  "mcpClients (snd (analyzeHealthcareWebsite e u s)) = mcpClients s"
  by (simp add: analyzeHealthcareWebsite_def Let_def split_beta call_def generateDoctorName_mcp_def
           split: prod.splits sum.splits option.splits)

lemma create_repo_mcp_trace [simp]:
  "trace (snd (createPersonalizedRepository_mcp e pd s)) = trace s"
  by (simp add: createPersonalizedRepository_mcp_def Let_def split_beta call_def
           split: sum.splits)

lemma create_repo_mcp_clients [simp]:
  "mcpClients (snd (createPersonalizedRepository_mcp e pd s)) = mcpClients s"
  by (simp add: createPersonalizedRepository_mcp_def Let_def split_beta call_def
           split: sum.splits)

lemma deploy_mcp_trace [simp]:
  "trace (snd (deployToRailwayMCP e pd repo s)) = trace s"
  by (simp add: deployToRailwayMCP_def Let_def split_beta call_def
           split: sum.splits option.splits)

lemma deploy_mcp_clients [simp]:
  "mcpClients (snd (deployToRailwayMCP e pd repo s)) = mcpClients s"
  by (simp add: deployToRailwayMCP_def Let_def split_beta call_def
           split: sum.splits option.splits)

lemma direct_voice_trace [simp]:
  "trace (snd (direct_voice_agent e pd s)) = trace s"
  by (simp add: direct_voice_agent_def Let_def split_beta call_def
           split: sum.splits option.splits list.splits)

lemma direct_voice_clients [simp]:
  "mcpClients (snd (direct_voice_agent e pd s)) = mcpClients s"
  by (simp add: direct_voice_agent_def Let_def split_beta call_def
           split: sum.splits option.splits list.splits)

lemma voice_mcp_trace [simp]:
  "trace (snd (createVoiceAgentMCP e pd s)) = trace s"
  by (simp add: createVoiceAgentMCP_def Let_def split_beta call_def
           split: option.splits)

lemma voice_mcp_clients [simp]:
  "mcpClients (snd (createVoiceAgentMCP e pd s)) = mcpClients s"
  by (simp add: createVoiceAgentMCP_def Let_def split_beta call_def
           split: option.splits)

lemma store_mcp_trace [simp]:
  "trace (snd (storeLeadInNotionMCP e pd dep va s)) = trace s"
  by (simp add: storeLeadInNotionMCP_def Let_def split_beta call_def
           split: sum.splits option.splits)

lemma store_mcp_clients [simp]:
  "mcpClients (snd (storeLeadInNotionMCP e pd dep va s)) = mcpClients s"
  by (simp add: storeLeadInNotionMCP_def Let_def split_beta call_def
           split: sum.splits option.splits)

text \<open>What each phase returns when its provider is out of reach.\<close>

lemma analyze_fallback:
  assumes "map_of (mcpClients s) ''playwright'' = None" and "URL_hostname e u = Inr d"
  shows "fst (analyzeHealthcareWebsite e u s) =
     Inr \<lparr>company = extractCompanyFromDomain d,
          contactName = ''Dr. '' @ pick firstNames_mcp (Math_random e (tick s)) @ '' ''
                          @ pick lastNames_mcp (Math_random e (Suc (tick s))),
          phone = ''+44 20 7123 4567'',
          email = ''info@'' @ d,
          location = ''London, UK'',
          services = [''Aesthetic Treatments'', ''Cosmetic Surgery'', ''Skin Care''],
          practiceType = ''beauty'',
          practiceId = generatePracticeId d,
          leadSource = ''fallback-analysis'',
          leadScore = draw_leadScore (Math_random e (Suc (Suc (tick s)))),
          brandPrimary = ''#0066cc'',
          brandSecondary = ''#004499'',
          rawScrapedData = None\<rparr>"
  using assms
  by (simp add: analyzeHealthcareWebsite_def Let_def split_beta call_def generateDoctorName_mcp_def)

lemma deploy_fallback:
  assumes "map_of (mcpClients s) ''railway'' = None"
  shows "deploy_method (fst (deployToRailwayMCP e pd repo s)) = Some ''fallback''"
  using assms by (simp add: deployToRailwayMCP_def Let_def split_beta call_def)

lemma store_fallback:
  assumes "map_of (mcpClients s) ''notion'' = None"
  shows "storage_method (fst (storeLeadInNotionMCP e pd dep va s)) = ''fallback''"
  using assms by (simp add: storeLeadInNotionMCP_def Let_def split_beta call_def)

lemma voice_fallback:
  assumes "\<forall>n. isl (voices_getAll e n)"
  shows "voice_method (fst (createVoiceAgentMCP e pd s)) = ''fallback_enhanced''"
proof -
  have "fst (direct_voice_agent e pd (s\<lparr>elevenLabsClient := True\<rparr>)) = None"
    using assms[rule_format, of "tick s"]
    by (simp add: direct_voice_agent_def call_def split_beta isl_def split: sum.splits) auto
  then show ?thesis
    by (simp add: createVoiceAgentMCP_def Let_def split_beta call_def)
qed

lemma analyze_down:
  assumes "mcpClients s = [] \<or> (\<forall>n c t a. isl (callTool e n c t a))"
    and "URL_hostname e u = Inr d"
  shows "\<exists>pd. fst (analyzeHealthcareWebsite e u s) = Inr pd
              \<and> leadSource pd = ''fallback-analysis''"
proof (cases "map_of (mcpClients s) ''playwright''")
  case None
  with analyze_fallback[OF None assms(2)] show ?thesis by simp
next
  case (Some c)
  with assms(1) have "isl (callTool e (tick s) c ''playwright_navigate'' [(''url'', u)])"
    by auto
  then obtain err where "callTool e (tick s) c ''playwright_navigate'' [(''url'', u)] = Inl err"
    by (cases "callTool e (tick s) c ''playwright_navigate'' [(''url'', u)]") simp_all
  then have "fst (playwright_analysis e c u s) = None"
    by (simp add: playwright_analysis_def call_def)
  with Some assms(2) show ?thesis
    by (simp add: analyzeHealthcareWebsite_def Let_def split_beta call_def
          generateDoctorName_mcp_def)
qed

lemma deploy_down:
  assumes "mcpClients s = [] \<or> (\<forall>n c t a. isl (callTool e n c t a))"
  shows "deploy_method (fst (deployToRailwayMCP e pd repo s)) = Some ''fallback''"
proof (cases "map_of (mcpClients s) ''railway''")
  case None
  then show ?thesis by (rule deploy_fallback)
next
  case (Some c)
  with assms have "isl (callTool e (tick s) c ''project_create''
      [(''name'', practiceId pd @ ''-mcp-demo'')])"
    by auto
  then obtain err where "callTool e (tick s) c ''project_create''
      [(''name'', practiceId pd @ ''-mcp-demo'')] = Inl err"
    by (cases "callTool e (tick s) c ''project_create''
      [(''name'', practiceId pd @ ''-mcp-demo'')]") simp_all
  with Some show ?thesis
    by (simp add: deployToRailwayMCP_def Let_def split_beta call_def)
qed

lemma store_mcp_down:
  assumes "mcpClients s = [] \<or> (\<forall>n c t a. isl (callTool e n c t a))"
  shows "storage_method (fst (storeLeadInNotionMCP e pd dep va s)) = ''fallback''"
proof (cases "map_of (mcpClients s) ''notion''")
  case None
  then show ?thesis by (rule store_fallback)
next
  case (Some c)
  let ?args = "[(''parent_id'', notionDatabaseId e), (''parent_type'', ''database''),
      (''title'', company pd), (''Practice Name'', company pd), (''Doctor'', contactName pd),
      (''Phone'', phone pd), (''Email'', email pd), (''Demo URL'', deploy_url dep),
      (''Lead Score'', js_number (leadScore pd)), (''Status'', ''Demo Deployed'')]"
  from Some assms have "isl (callTool e (tick s) c ''create-page'' ?args)"
    by auto
  then obtain err where "callTool e (tick s) c ''create-page'' ?args = Inl err"
    by (cases "callTool e (tick s) c ''create-page'' ?args") simp_all
  with Some show ?thesis
    by (simp add: storeLeadInNotionMCP_def Let_def split_beta call_def)
qed

lemma create_repo_mcp_down:
  assumes "\<forall>n c. isl (execSync e n c)"
  shows "\<exists>m. fst (createPersonalizedRepository_mcp e pd s) =
           Inl (Error (''Repository creation failed: '' @ m))"
proof -
  let ?cmd = "''gh api --method POST /user/repos --field name='' @ quote
      @ (practiceId pd @ ''-mcp-demo-'' @ js_number (Date_now e (tick s))) @ quote
      @ '' --field description='' @ quote @ ''Healthcare MCP demo for ''
      @ company pd @ quote @ '' --field private=false --field auto_init=true''"
  from assms have "isl (execSync e (Suc (tick s)) ?cmd)" by blast
  then obtain err where "execSync e (Suc (tick s)) ?cmd = Inl err"
    by (cases "execSync e (Suc (tick s)) ?cmd") simp_all
  then show ?thesis
    by (simp add: createPersonalizedRepository_mcp_def Let_def split_beta call_def
        repository_failed_def)
qed

lemma create_repo_mcp_up:
  assumes "\<forall>n c. \<not> isl (execSync e n c)" and "\<forall>t. \<not> isl (JSON_parse_repository e t)"
  shows "\<exists>repo. fst (createPersonalizedRepository_mcp e pd s) = Inr repo"
proof -
  let ?cmd = "''gh api --method POST /user/repos --field name='' @ quote
      @ (practiceId pd @ ''-mcp-demo-'' @ js_number (Date_now e (tick s))) @ quote
      @ '' --field description='' @ quote @ ''Healthcare MCP demo for ''
      @ company pd @ quote @ '' --field private=false --field auto_init=true''"
  from assms have "\<not> isl (execSync e (Suc (tick s)) ?cmd)" by blast
  then obtain out where out: "execSync e (Suc (tick s)) ?cmd = Inr out"
    by (cases "execSync e (Suc (tick s)) ?cmd") simp_all
  from assms have "\<not> isl (JSON_parse_repository e out)" by blast
  then obtain repo where repo: "JSON_parse_repository e out = Inr repo"
    by (cases "JSON_parse_repository e out") simp_all
  from out repo show ?thesis
    by (simp add: createPersonalizedRepository_mcp_def Let_def split_beta call_def
        run_all_ok[OF assms(1)])
qed

lemma create_repo_mcp_error:
  "fst (createPersonalizedRepository_mcp e pd s) = Inl err \<Longrightarrow>
     \<exists>m. err = Error (''Repository creation failed: '' @ m)"
  by (auto simp add: createPersonalizedRepository_mcp_def Let_def split_beta call_def
      repository_failed_def split: sum.splits)

lemma pipeline_mcp_clients [simp]:
  "mcpClients (snd (pipeline_mcp e u s)) = mcpClients s"
  by (simp add: pipeline_mcp_def Let_def split_beta split: sum.splits)

lemma phase_events_order_mcp:
  "phase_events order_mcp =
     [PhaseStart Discovery, PhaseDone Discovery, PhaseStart Provisioning, PhaseDone Provisioning,
      PhaseStart Deployment, PhaseDone Deployment, PhaseStart VoiceSynthesis,
      PhaseDone VoiceSynthesis, PhaseStart Storage, PhaseDone Storage]"
  by (simp add: phase_events_def order_mcp_def)

lemma pipeline_mcp_trace:
  "trace (snd (pipeline_mcp e u s)) =
     trace s @
       (case fst (pipeline_mcp e u s) of
          Inr done \<Rightarrow> tl (phase_events order_mcp)
        | Inl err \<Rightarrow>
            (if isl (fst (analyzeHealthcareWebsite e u s)) then []
             else [PhaseDone Discovery, PhaseStart Provisioning]))"
  by (simp add: pipeline_mcp_def Let_def split_beta phase_events_order_mcp split: sum.splits)

lemma process_mcp_trace:
  "trace (snd (processHealthcareWebsite_mcp e u s)) =
     trace s @
       (if status (fst (processHealthcareWebsite_mcp e u s)) = ''success''
        then phase_events order_mcp
        else if isl (fst (analyzeHealthcareWebsite e u
                  (emit (PhaseStart Discovery) (snd (call (Date_now e) (snd (call (Date_now e) s)))))))
        then [PhaseStart Discovery]
        else [PhaseStart Discovery, PhaseDone Discovery, PhaseStart Provisioning])"
  by (simp add: processHealthcareWebsite_mcp_def Let_def split_beta pipeline_mcp_trace
        phase_events_order_mcp split: sum.splits)

lemma process_mcp_status:
  "status (fst (processHealthcareWebsite_mcp e u s)) =
     (if isl (fst (pipeline_mcp e u
          (emit (PhaseStart Discovery) (snd (call (Date_now e) (snd (call (Date_now e) s)))))))
      then ''failed'' else ''success'')"
  by (simp add: processHealthcareWebsite_mcp_def Let_def split_beta split: sum.splits)

lemma process_mcp_clients [simp]:
  "mcpClients (snd (processHealthcareWebsite_mcp e u s)) = mcpClients s"
  by (simp add: processHealthcareWebsite_mcp_def Let_def split_beta split: sum.splits)

lemma pipeline_mcp_down_fail:
  assumes "mcpClients s = [] \<or> (\<forall>n c t a. isl (callTool e n c t a))"
    and "URL_hostname e u = Inr d"
    and "\<forall>n c. isl (execSync e n c)"
  shows "\<exists>m. fst (pipeline_mcp e u s) = Inl (Error (''Repository creation failed: '' @ m))"
proof -
  obtain pd where pd: "fst (analyzeHealthcareWebsite e u s) = Inr pd"
    using analyze_down[OF assms(1,2)] by blast
  obtain m where "fst (createPersonalizedRepository_mcp e pd
      (emit (PhaseStart Provisioning) (emit (PhaseDone Discovery)
         (snd (analyzeHealthcareWebsite e u s))))) = Inl (Error (''Repository creation failed: '' @ m))"
    using create_repo_mcp_down[OF assms(3)] by blast
  with pd show ?thesis
    by (simp add: pipeline_mcp_def split_beta)
qed

lemma pipeline_mcp_down_ok:
  assumes "mcpClients s = [] \<or> (\<forall>n c t a. isl (callTool e n c t a))"
    and "URL_hostname e u = Inr d"
    and "\<forall>n. isl (voices_getAll e n)"
    and "\<forall>n c. \<not> isl (execSync e n c)" and "\<forall>t. \<not> isl (JSON_parse_repository e t)"
  shows "case fst (pipeline_mcp e u s) of
           Inr (pd, repo, dep, va, ns) \<Rightarrow>
             leadSource pd = ''fallback-analysis'' \<and> deploy_method dep = Some ''fallback''
             \<and> voice_method va = ''fallback_enhanced'' \<and> storage_method ns = ''fallback''
         | Inl err \<Rightarrow> False"
proof -
  obtain pd where pd: "fst (analyzeHealthcareWebsite e u s) = Inr pd"
    and src: "leadSource pd = ''fallback-analysis''"
    using analyze_down[OF assms(1,2)] by blast
  obtain repo where "fst (createPersonalizedRepository_mcp e pd
      (emit (PhaseStart Provisioning) (emit (PhaseDone Discovery)
         (snd (analyzeHealthcareWebsite e u s))))) = Inr repo"
    using create_repo_mcp_up[OF assms(4,5)] by blast
  with pd src assms(1) show ?thesis
    by (simp add: pipeline_mcp_def split_beta Let_def deploy_down store_mcp_down
          voice_fallback[OF assms(3)])
qed

section \<open>Lemmas: the REST agent and the traces of a pipeline\<close>

lemma sleep_trace [simp]: "trace (sleep ms s) = trace s @ [Sleep ms]"
  by (simp add: sleep_def)

lemma sleep_clients [simp]: "mcpClients (sleep ms s) = mcpClients s"
  by (simp add: sleep_def)

lemma generateDoctorName_trace [simp]:
  "trace (snd (generateDoctorName e s)) = trace s"
  by (simp add: generateDoctorName_def call_def Let_def)

lemma scrape_trace [simp]:
  "trace (snd (scrapeHealthcareWebsite e u s)) = trace s"
  by (simp add: scrapeHealthcareWebsite_def Let_def split_beta split: sum.splits)

lemma store_trace [simp]:
  "trace (snd (storeLeadInNotion e pd u s)) = trace s"
  by (simp add: storeLeadInNotion_def Let_def split_beta split: sum.splits)

lemma store_down:
  assumes "\<forall>n a. isl (axios_post_notion e n a)"
  shows "\<exists>m. fst (storeLeadInNotion e pd u s) = Inl (Error (''Notion storage failed: '' @ m))"
proof -
  let ?args = "[(''database_id'', notionDatabaseId e), (''Company'', company pd),
      (''Contact Name'', contactName pd), (''Location'', location pd), (''Phone'', phone pd),
      (''Email'', email pd), (''Website URL'', u), (''Agent ID'', ''pending'')]"
  from assms have "isl (axios_post_notion e (tick s) ?args)" by blast
  then obtain err where "axios_post_notion e (tick s) ?args = Inl err"
    by (cases "axios_post_notion e (tick s) ?args") simp_all
  then show ?thesis
    by (simp add: storeLeadInNotion_def split_beta call_def)
qed

lemma eleven_trace [simp]:
  "trace (snd (createElevenLabsAgent e pd s)) = trace s"
  by (simp add: createElevenLabsAgent_def Let_def split_beta)

lemma updatePracticeConfig_trace [simp]:
  "trace (updatePracticeConfig e p pd a s) = trace s"
  by (simp add: updatePracticeConfig_def Let_def split_beta split: sum.splits)

lemma createEnvFile_trace [simp]:
  "trace (createEnvFile e p pd s) = trace s"
  by (simp add: createEnvFile_def)

lemma personalize_trace [simp]:
  "trace (snd (personalizeRepository e repo pd a s)) = trace s"
  by (simp add: personalizeRepository_def Let_def split_beta split: sum.splits)

lemma create_repo_trace [simp]:
  "trace (snd (createPersonalizedRepository e pd a s)) = trace s"
  by (simp add: createPersonalizedRepository_def Let_def split_beta split: sum.splits option.splits)

lemma deploy_trace [simp]:
  "trace (snd (deployToRailway e pd repo s)) = trace s @ [Sleep 2000]"
  by (simp add: deployToRailway_def Let_def split_beta)

lemma update_notion_trace [simp]:
  "trace (updateNotionWithResults e pid d a s) = trace s"
  by (simp add: updateNotionWithResults_def)

lemma events_rest_eq:
  "events_rest =
     [PhaseStart Discovery, PhaseDone Discovery, PhaseStart Storage, PhaseDone Storage,
      PhaseStart VoiceSynthesis, PhaseDone VoiceSynthesis, PhaseStart Provisioning,
      PhaseDone Provisioning, PhaseStart Deployment, Sleep 2000, PhaseDone Deployment,
      PhaseStart StatusUpdate, PhaseDone StatusUpdate]"
  by (simp add: events_rest_def phase_events_def)

lemma pipeline_trace:
  "trace (snd (pipeline e u s)) =
     trace s @
       (case fst (pipeline e u s) of
          Inr done \<Rightarrow> tl events_rest
        | Inl err \<Rightarrow>
            (if isl (fst (scrapeHealthcareWebsite e u s)) then []
             else if (case fst (storeLeadInNotion e (projr (fst (scrapeHealthcareWebsite e u s))) u
                        (emit (PhaseStart Storage) (emit (PhaseDone Discovery)
                           (snd (scrapeHealthcareWebsite e u s))))) of
                        Inr (Some page) \<Rightarrow> False | other \<Rightarrow> True)
             then [PhaseDone Discovery, PhaseStart Storage]
             else [PhaseDone Discovery, PhaseStart Storage, PhaseDone Storage,
                   PhaseStart VoiceSynthesis, PhaseDone VoiceSynthesis, PhaseStart Provisioning]))"
  by (simp add: pipeline_def Let_def split_beta events_rest_eq split: sum.splits option.splits)

lemma process_trace_prefix:
  "take (length (trace s)) (trace (snd (processHealthcareWebsite e u s))) = trace s
   \<and> prefix (drop (length (trace s)) (trace (snd (processHealthcareWebsite e u s)))) events_rest
   \<and> (status (fst (processHealthcareWebsite e u s)) = ''success'')
       = (drop (length (trace s)) (trace (snd (processHealthcareWebsite e u s))) = events_rest)"
  by (simp add: processHealthcareWebsite_def Let_def split_beta pipeline_trace events_rest_eq
        split: sum.splits option.splits)

lemma process_mcp_trace_prefix:
  "take (length (trace s)) (trace (snd (processHealthcareWebsite_mcp e u s))) = trace s
   \<and> prefix (drop (length (trace s)) (trace (snd (processHealthcareWebsite_mcp e u s))))
        (phase_events order_mcp)
   \<and> (status (fst (processHealthcareWebsite_mcp e u s)) = ''success'')
       = (drop (length (trace s)) (trace (snd (processHealthcareWebsite_mcp e u s)))
            = phase_events order_mcp)"
  by (simp add: processHealthcareWebsite_mcp_def Let_def split_beta pipeline_mcp_trace
        phase_events_order_mcp split: sum.splits option.splits)

lemma process_status:
  "status (fst (processHealthcareWebsite e u s)) = ''success''
   \<or> status (fst (processHealthcareWebsite e u s)) = ''failed''"
  by (simp add: processHealthcareWebsite_def Let_def split_beta split: sum.splits)

lemma process_mcp_status_cases:
  "status (fst (processHealthcareWebsite_mcp e u s)) = ''success''
   \<or> status (fst (processHealthcareWebsite_mcp e u s)) = ''failed''"
  by (simp add: processHealthcareWebsite_mcp_def Let_def split_beta split: sum.splits)



lemma batch_events_append [simp]: "batch_events (xs @ ys) = batch_events xs @ batch_events ys"
  by (simp add: batch_events_def)

lemma process_mcp_batch_events [simp]:
  "batch_events (trace (snd (processHealthcareWebsite_mcp e u s))) = batch_events (trace s)"
  by (simp add: process_mcp_trace phase_events_order_mcp batch_events_def)

lemma process_batch_events [simp]:
  "batch_events (trace (snd (processHealthcareWebsite e u s))) = batch_events (trace s)"
  by (simp add: processHealthcareWebsite_def Let_def split_beta pipeline_trace events_rest_eq
        batch_events_def split: sum.splits option.splits)

section \<open>Lemmas: sessions and the batch loop\<close>

lemma lead_starts_append [simp]: "lead_starts (xs @ ys) = lead_starts xs @ lead_starts ys"
  by (induction xs rule: lead_starts.induct) simp_all

lemma connect_session_trace [simp]: "trace (snd (connect_session e nm srv s)) = trace s"
  by (simp add: connect_session_def split_beta call_def split: sum.splits)

lemma connect_first_trace [simp]: "trace (snd (connect_first e srvs s)) = trace s"
  by (induction srvs arbitrary: s) (simp_all add: split_beta split: bool.splits)

lemma connectElevenLabsMCP_trace [simp]: "trace (snd (connectElevenLabsMCP e s)) = trace s"
  unfolding connectElevenLabsMCP_def by (rule connect_first_trace)

lemma connectAllMCPs_trace [simp]: "trace (snd (connectAllMCPs e s)) = trace s"
  by (simp add: connectAllMCPs_def connectMCP_def connectPlaywrightMCP_def
        connectNotionMCP_def split_beta Let_def)

lemma close_all_trace: "trace (close_all e cs s) = trace s @ map (\<lambda>c. Close (fst c)) cs"
  by (induction cs arbitrary: s) (auto simp add: split_beta)

lemma disconnect_trace: "trace (disconnectAllMCPs e s) = trace s @ map (\<lambda>c. Close (fst c)) (mcpClients s)"
  by (simp add: disconnectAllMCPs_def close_all_trace)

lemma disconnect_clients [simp]: "mcpClients (disconnectAllMCPs e s) = []"
  by (simp add: disconnectAllMCPs_def)

lemma lead_starts_closes [simp]: "lead_starts (map (\<lambda>c. Close (fst c)) cs) = []"
  by (induction cs) simp_all

lemma batch_events_closes [simp]: "batch_events (map (\<lambda>c. Close (fst c)) cs) = []"
  by (induction cs) (simp_all add: batch_events_def)






lemma lead_step_batch_events:
  assumes "\<forall>u s. batch_events (trace (snd (proc e u s))) = batch_events (trace s)"
    and "\<forall>u s. \<not> isl (fst (proc e u s))"
  shows "batch_events (trace (snd (lead_step proc e n i u (rs, s))))
           = batch_events (trace s) @
               (if int i < int n - 1 then [LeadStart (Suc i) u, Sleep 3000] else [LeadStart (Suc i) u])"
proof -
  from assms(2) have "\<not> isl (fst (proc e u (emit (LeadStart (i + 1) u) s)))" by blast
  then obtain r where "fst (proc e u (emit (LeadStart (i + 1) u) s)) = Inr r"
    by (cases "fst (proc e u (emit (LeadStart (i + 1) u) s))") simp_all
  with assms(1) show ?thesis
    by (simp add: lead_step_def split_beta Let_def batch_events_def[of "[_]"] batch_events_def[of "[_, _]"])
qed

lemma lead_loop_batch_events:
  assumes "\<forall>u s. batch_events (trace (snd (proc e u s))) = batch_events (trace s)"
    and "\<forall>u s. \<not> isl (fst (proc e u s))"
  shows "i + length us = n \<Longrightarrow>
         batch_events (trace (snd (lead_loop proc e n i us (rs, s))))
           = batch_events (trace s) @ alternating (Suc i) us"
proof (induction us arbitrary: i rs s)
  case Nil
  show ?case by simp
next
  case (Cons u us)
  obtain rs' s' where st: "lead_step proc e n i u (rs, s) = (rs', s')"
    by (cases "lead_step proc e n i u (rs, s)")
  with lead_step_batch_events[of proc e n i u rs s] assms
  have ev: "batch_events (trace s') = batch_events (trace s) @
               (if int i < int n - 1 then [LeadStart (Suc i) u, Sleep 3000] else [LeadStart (Suc i) u])"
    by simp
  from Cons.prems have n: "Suc i + length us = n" by simp
  show ?case
  proof (cases us)
    case Nil
    with Cons.prems ev st show ?thesis by simp
  next
    case (Cons v vs)
    with n have "int i < int n - 1" by simp
    with ev Cons.IH[OF n, of rs' s'] st Cons show ?thesis by simp
  qed
qed

lemma count_alternating:
  "count_list (alternating i us) (Sleep 3000) = length us - 1"
  by (induction i us rule: alternating.induct) simp_all

lemma count_list_batch_events:
  "count_list (batch_events es) (Sleep 3000) = count_list es (Sleep 3000)"
  by (induction es) (simp_all add: batch_events_def)


section \<open>The pipeline of one target\<close>

lemma process_mcp_down_fail:
  assumes "mcpClients s = [] \<or> (\<forall>n c t a. isl (callTool e n c t a))"
    and "URL_hostname e u = Inr d"
    and "\<forall>n c. isl (execSync e n c)"
  shows "status (fst (processHealthcareWebsite_mcp e u s)) = ''failed''
         \<and> (\<exists>m. error (fst (processHealthcareWebsite_mcp e u s))
                  = Some (''Repository creation failed: '' @ m))"
proof -
  let ?s2 = "emit (PhaseStart Discovery) (snd (call (Date_now e) (snd (call (Date_now e) s))))"
  have c2: "mcpClients ?s2 = [] \<or> (\<forall>n c t a. isl (callTool e n c t a))"
    using assms(1) by simp
  obtain m where m: "fst (pipeline_mcp e u ?s2) = Inl (Error (''Repository creation failed: '' @ m))"
    using pipeline_mcp_down_fail[OF c2 assms(2) assms(3)] by blast
  then show ?thesis
    by (simp add: processHealthcareWebsite_mcp_def split_beta Let_def)
qed

lemma process_mcp_down_ok:
  assumes "mcpClients s = [] \<or> (\<forall>n c t a. isl (callTool e n c t a))"
    and "URL_hostname e u = Inr d"
    and "\<forall>n. isl (voices_getAll e n)"
    and "\<forall>n c. \<not> isl (execSync e n c)" and "\<forall>t. \<not> isl (JSON_parse_repository e t)"
  shows "status (fst (processHealthcareWebsite_mcp e u s)) = ''success''
         \<and> error (fst (processHealthcareWebsite_mcp e u s)) = None
         \<and> lead_leadSource (fst (processHealthcareWebsite_mcp e u s)) = Some ''fallback-analysis''"
proof -
  let ?s2 = "emit (PhaseStart Discovery) (snd (call (Date_now e) (snd (call (Date_now e) s))))"
  have c2: "mcpClients ?s2 = [] \<or> (\<forall>n c t a. isl (callTool e n c t a))"
    using assms(1) by simp
  have ok: "case fst (pipeline_mcp e u ?s2) of
           Inr (pd, repo, dep, va, ns) \<Rightarrow>
             leadSource pd = ''fallback-analysis'' \<and> deploy_method dep = Some ''fallback''
             \<and> voice_method va = ''fallback_enhanced'' \<and> storage_method ns = ''fallback''
         | Inl err \<Rightarrow> False"
    by (rule pipeline_mcp_down_ok[OF c2 assms(2) assms(3) assms(4) assms(5)])
  then show ?thesis
    by (auto simp add: processHealthcareWebsite_mcp_def split_beta Let_def split: sum.splits)
qed

lemma process_rest_down_fail:
  assumes "URL_hostname e u = Inr d" and "\<forall>n a. isl (axios_post_notion e n a)"
  shows "status (fst (processHealthcareWebsite e u s)) = ''failed''
         \<and> (\<exists>m. error (fst (processHealthcareWebsite e u s))
                  = Some (''Notion storage failed: '' @ m))"
proof -
  let ?s2 = "emit (PhaseStart Discovery) (snd (call (Date_now e) (snd (call (Date_now e) s))))"
  obtain pd where pd: "fst (scrapeHealthcareWebsite e u ?s2) = Inr pd"
    using assms(1) by (simp add: scrapeHealthcareWebsite_def split_beta Let_def)
  obtain m where "fst (storeLeadInNotion e pd u
      (emit (PhaseStart Storage) (emit (PhaseDone Discovery) (snd (scrapeHealthcareWebsite e u ?s2)))))
        = Inl (Error (''Notion storage failed: '' @ m))"
    using store_down[OF assms(2)] by blast
  with pd have "fst (pipeline e u ?s2) = Inl (Error (''Notion storage failed: '' @ m))"
    by (simp add: pipeline_def split_beta)
  then show ?thesis
    by (simp add: processHealthcareWebsite_def split_beta Let_def)
qed

lemma env_down_facts:
  "\<forall>n. isl (voices_getAll env_down n)" "\<forall>n c. isl (execSync env_down n c)"
  "URL_hostname env_down ''https://www.example-clinic.com'' = Inr ''www.example-clinic.com''"
  "\<forall>n. 0 \<le> Math_random env_down n \<and> Math_random env_down n < 1"
  by (simp_all add: env_down_def toy_hostname_def)

lemma env_git_facts:
  "\<forall>n. isl (voices_getAll env_git n)" "\<forall>n c. \<not> isl (execSync env_git n c)"
  "\<forall>t. \<not> isl (JSON_parse_repository env_git t)"
  "URL_hostname env_git ''https://www.example-clinic.com'' = Inr ''www.example-clinic.com''"
  by (simp_all add: env_git_def env_down_def toy_hostname_def)

lemma agent0_facts:
  "mcpClients agent0 = []" "trace agent0 = []" "tick agent0 = 0"
  "healthcareTargets agent0 = [''https://www.example-clinic.com'', ''https://harleyclinic.com'']"
  by (simp_all add: agent0_def)

lemma agent0_down: "mcpClients agent0 = [] \<or> (\<forall>n c t a. isl (callTool e n c t a))"
  by (simp add: agent0_def)

text \<open>
  C1, as the code has it. Take a target whose address parses, an agent that holds no MCP
  session or whose every tool call fails, and a voice provider that fails. The discovery,
  deployment, voice and storage phases then fall back, but the provisioning phase has no
  fallback:
  \<^item> when the shell commands of the source-control provider fail too, the record of the
    MCP agent has status \<open>failed\<close> and its error is the provisioning error, thrown again
    as \<^verbatim>\<open>Repository creation failed: ...\<close>;
  \<^item> when the shell commands succeed and their answer parses, the record has status
    \<open>success\<close> and no error, and the outputs of the four phases that have a fallback
    carry the tags \<^verbatim>\<open>fallback-analysis\<close>, \<^verbatim>\<open>fallback\<close>,
    \<^verbatim>\<open>fallback_enhanced\<close> and \<^verbatim>\<open>fallback\<close>;
  \<^item> in the REST agent the storage phase has no fallback either: when the CRM request
    fails, the record has status \<open>failed\<close> with the error
    \<^verbatim>\<open>Notion storage failed: ...\<close>.
\<close>

theorem fallback_without_provisioning:
  assumes "mcpClients s = [] \<or> (\<forall>n c t a. isl (callTool e n c t a))"
    and "\<forall>n. isl (voices_getAll e n)"
    and "URL_hostname e u = Inr d"
  shows "((\<forall>n c. isl (execSync e n c)) \<longrightarrow>
            status (fst (processHealthcareWebsite_mcp e u s)) = ''failed''
            \<and> (\<exists>m. error (fst (processHealthcareWebsite_mcp e u s))
                     = Some (''Repository creation failed: '' @ m)))
       \<and> ((\<forall>n c. \<not> isl (execSync e n c)) \<and> (\<forall>t. \<not> isl (JSON_parse_repository e t)) \<longrightarrow>
            status (fst (processHealthcareWebsite_mcp e u s)) = ''success''
            \<and> error (fst (processHealthcareWebsite_mcp e u s)) = None
            \<and> lead_leadSource (fst (processHealthcareWebsite_mcp e u s)) = Some ''fallback-analysis''
            \<and> (case fst (pipeline_mcp e u s) of
                  Inr (pd, repo, dep, va, ns) \<Rightarrow>
                    leadSource pd = ''fallback-analysis'' \<and> deploy_method dep = Some ''fallback''
                    \<and> voice_method va = ''fallback_enhanced'' \<and> storage_method ns = ''fallback''
                | Inl err \<Rightarrow> False))
       \<and> ((\<forall>n a. isl (axios_post_notion e n a)) \<longrightarrow>
            status (fst (processHealthcareWebsite e u s)) = ''failed''
            \<and> (\<exists>m. error (fst (processHealthcareWebsite e u s))
                     = Some (''Notion storage failed: '' @ m)))"
  using process_mcp_down_fail[OF assms(1) assms(3)]
    process_mcp_down_ok[OF assms(1) assms(3) assms(2)]
    pipeline_mcp_down_ok[OF assms(1) assms(3) assms(2)]
    process_rest_down_fail[OF assms(3)]
  by blast

text \<open>
  The hypotheses of C1's theorem hold in the world where every provider is down (the record
  fails) and in the world where only source control works (the record succeeds from
  fallbacks).
\<close>

theorem fallback_without_provisioning_witness:
  "status (fst (processHealthcareWebsite_mcp env_down ''https://www.example-clinic.com'' agent0))
     = ''failed''
   \<and> status (fst (processHealthcareWebsite_mcp env_git ''https://www.example-clinic.com'' agent0))
     = ''success''
   \<and> lead_leadSource
        (fst (processHealthcareWebsite_mcp env_git ''https://www.example-clinic.com'' agent0))
     = Some ''fallback-analysis''"
  using fallback_without_provisioning[OF agent0_down env_down_facts(1) env_down_facts(3)]
    fallback_without_provisioning[OF agent0_down env_git_facts(1) env_git_facts(4)]
    env_down_facts(2) env_git_facts(2) env_git_facts(3)
  by blast

text \<open>
  C1 as the specification states it fails: with every provider out of reach, the run of the
  MCP agent on \<^verbatim>\<open>https://www.example-clinic.com\<close> ends with status \<open>failed\<close>.
\<close>

theorem provider_outage_fails_counterexample:
  "status (fst (processHealthcareWebsite_mcp env_down ''https://www.example-clinic.com'' agent0))
     = ''failed''
   \<and> error (fst (processHealthcareWebsite_mcp env_down ''https://www.example-clinic.com'' agent0))
     = Some ''Repository creation failed: gh: command not found''"
  by code_simp

text \<open>
  C2, as the code has it. A run of either agent appends to the trace a prefix of one fixed
  sequence of phase events, each phase reporting its result before the next is announced,
  and the whole sequence exactly when the record has status \<open>success\<close>. For the MCP
  agent the sequence is discovery, provisioning, deployment, voice synthesis, storage; for
  the REST agent it is discovery, storage, voice synthesis, provisioning, deployment (with
  its two-second sleep) and the final status update.
\<close>

theorem phase_order_per_agent:
  "take (length (trace s)) (trace (snd (processHealthcareWebsite_mcp e u s))) = trace s
   \<and> prefix (drop (length (trace s)) (trace (snd (processHealthcareWebsite_mcp e u s))))
        (phase_events order_mcp)
   \<and> (status (fst (processHealthcareWebsite_mcp e u s)) = ''success'')
       = (drop (length (trace s)) (trace (snd (processHealthcareWebsite_mcp e u s)))
            = phase_events order_mcp)
   \<and> take (length (trace s)) (trace (snd (processHealthcareWebsite e u s))) = trace s
   \<and> prefix (drop (length (trace s)) (trace (snd (processHealthcareWebsite e u s)))) events_rest
   \<and> (status (fst (processHealthcareWebsite e u s)) = ''success'')
       = (drop (length (trace s)) (trace (snd (processHealthcareWebsite e u s))) = events_rest)"
  using process_mcp_trace_prefix[of s e u] process_trace_prefix[of s e u] by blast

text \<open>
  C2 as the specification states it fails for the MCP agent: a successful run announces
  provisioning and deployment before voice synthesis, and storage last.
\<close>

theorem phase_order_counterexample:
  "phases_started (trace (snd (processHealthcareWebsite_mcp env_git
      ''https://www.example-clinic.com'' agent0)))
     = [Discovery, Provisioning, Deployment, VoiceSynthesis, Storage]
   \<and> phases_started (trace (snd (processHealthcareWebsite_mcp env_git
      ''https://www.example-clinic.com'' agent0)))
     \<noteq> [Discovery, Storage, VoiceSynthesis, Provisioning, Deployment]"
proof -
  have "status (fst (processHealthcareWebsite_mcp env_git ''https://www.example-clinic.com'' agent0))
          = ''success''"
    using process_mcp_down_ok[OF agent0_down env_git_facts(4) env_git_facts(1)
        env_git_facts(2) env_git_facts(3)] by blast
  then have "trace (snd (processHealthcareWebsite_mcp env_git ''https://www.example-clinic.com'' agent0))
          = phase_events order_mcp"
    by (simp add: process_mcp_trace agent0_facts)
  then show ?thesis
    by (simp add: phase_events_order_mcp)
qed



section \<open>The batch\<close>

lemma process_mcp_lead_starts [simp]:
  "lead_starts (trace (snd (processHealthcareWebsite_mcp e u s))) = lead_starts (trace s)"
  by (simp add: process_mcp_trace phase_events_order_mcp)

lemma executor_mcp_fst: "fst (executor_mcp e u s) = Inr (fst (processHealthcareWebsite_mcp e u s))"
  by (simp add: executor_mcp_def split_beta)

lemma executor_mcp_snd: "snd (executor_mcp e u s) = snd (processHealthcareWebsite_mcp e u s)"
  by (simp add: executor_mcp_def split_beta)

lemma executor_rest_fst: "fst (executor_rest e u s) = Inr (fst (processHealthcareWebsite e u s))"
  by (simp add: executor_rest_def split_beta)

lemma executor_rest_snd: "snd (executor_rest e u s) = snd (processHealthcareWebsite e u s)"
  by (simp add: executor_rest_def split_beta)

lemma workflow_mcp_with_fst:
  "fst (executeAutonomousWorkflow_mcp_with proc e c s) =
     Inr (fst (lead_loop proc e (length (slice0 (healthcareTargets s) c)) 0
                 (slice0 (healthcareTargets s) c) ([], snd (connectAllMCPs e s))))"
  by (simp add: executeAutonomousWorkflow_mcp_with_def try_finally_def batch_body_mcp_def
        split_beta Let_def)

lemma workflow_mcp_with_trace:
  "trace (snd (executeAutonomousWorkflow_mcp_with proc e c s)) =
     trace (snd (lead_loop proc e (length (slice0 (healthcareTargets s) c)) 0
                 (slice0 (healthcareTargets s) c) ([], snd (connectAllMCPs e s))))
     @ map (\<lambda>c. Close (fst c))
         (mcpClients (snd (lead_loop proc e (length (slice0 (healthcareTargets s) c)) 0
                 (slice0 (healthcareTargets s) c) ([], snd (connectAllMCPs e s)))))"
  by (simp add: executeAutonomousWorkflow_mcp_with_def try_finally_def batch_body_mcp_def
        split_beta Let_def disconnect_trace)



text \<open>
  C6: with the single target \<open>T\<close> and count 1, the batch of either agent returns exactly
  one record, and its status is \<open>success\<close> or \<open>failed\<close>.
\<close>

theorem single_target_one_record:
  "(\<exists>r. fst (executeAutonomousWorkflow_mcp e 1 (s\<lparr>healthcareTargets := [T]\<rparr>)) = Inr [r]
        \<and> (status r = ''success'' \<or> status r = ''failed''))
   \<and> (\<exists>r. fst (executeAutonomousWorkflow e 1 (s\<lparr>healthcareTargets := [T]\<rparr>)) = [r]
        \<and> (status r = ''success'' \<or> status r = ''failed''))"
  using process_mcp_status_cases process_status
  by (simp add: executeAutonomousWorkflow_mcp_def workflow_mcp_with_fst
        executeAutonomousWorkflow_def executeAutonomousWorkflow_with_def slice0_def
        lead_step_def split_beta Let_def executor_mcp_fst executor_rest_fst)

lemma executor_mcp_facts:
  "\<forall>u s. batch_events (trace (snd (executor_mcp e u s))) = batch_events (trace s)"
  "\<forall>u s. \<not> isl (fst (executor_mcp e u s))"
  by (simp_all add: executor_mcp_fst executor_mcp_snd)

lemma executor_rest_facts:
  "\<forall>u s. batch_events (trace (snd (executor_rest e u s))) = batch_events (trace s)"
  "\<forall>u s. \<not> isl (fst (executor_rest e u s))"
  by (simp_all add: executor_rest_fst executor_rest_snd)

lemma workflow_mcp_batch_events:
  "batch_events (trace (snd (executeAutonomousWorkflow_mcp e c s)))
     = batch_events (trace s) @ alternating 1 (slice0 (healthcareTargets s) c)"
  using lead_loop_batch_events[of executor_mcp e 0 "slice0 (healthcareTargets s) c"
          "length (slice0 (healthcareTargets s) c)" "[]" "snd (connectAllMCPs e s)"]
        executor_mcp_facts[of e]
  by (simp add: executeAutonomousWorkflow_mcp_def workflow_mcp_with_trace)

lemma workflow_batch_events:
  "batch_events (trace (snd (executeAutonomousWorkflow e c s)))
     = batch_events (trace s) @ alternating 1 (slice0 (healthcareTargets s) c)"
  using lead_loop_batch_events[of executor_rest e 0 "slice0 (healthcareTargets s) c"
          "length (slice0 (healthcareTargets s) c)" "[]" s]
        executor_rest_facts[of e]
  by (simp add: executeAutonomousWorkflow_def executeAutonomousWorkflow_with_def Let_def
        split_beta)

lemma count_list_append': "count_list (xs @ ys) x = count_list xs x + count_list ys x"
  by (induction xs) simp_all

text \<open>
  C7: in the batch of either agent the lead announcements and three-second sleeps alternate,
  starting and ending with an announcement: with \<open>N\<close> selected targets the batch sleeps
  \<open>N - 1\<close> times, never after the last target.
\<close>

theorem inter_target_sleeps:
  "batch_events (trace (snd (executeAutonomousWorkflow_mcp e c s)))
     = batch_events (trace s) @ alternating 1 (slice0 (healthcareTargets s) c)
   \<and> count_list (trace (snd (executeAutonomousWorkflow_mcp e c s))) (Sleep 3000)
     = count_list (trace s) (Sleep 3000) + (length (slice0 (healthcareTargets s) c) - 1)
   \<and> batch_events (trace (snd (executeAutonomousWorkflow e c s)))
     = batch_events (trace s) @ alternating 1 (slice0 (healthcareTargets s) c)
   \<and> count_list (trace (snd (executeAutonomousWorkflow e c s))) (Sleep 3000)
     = count_list (trace s) (Sleep 3000) + (length (slice0 (healthcareTargets s) c) - 1)"
proof -
  have "count_list (trace (snd (executeAutonomousWorkflow_mcp e c s))) (Sleep 3000)
     = count_list (batch_events (trace s) @ alternating 1 (slice0 (healthcareTargets s) c)) (Sleep 3000)"
    using workflow_mcp_batch_events[of e c s] count_list_batch_events by metis
  moreover have "count_list (trace (snd (executeAutonomousWorkflow e c s))) (Sleep 3000)
     = count_list (batch_events (trace s) @ alternating 1 (slice0 (healthcareTargets s) c)) (Sleep 3000)"
    using workflow_batch_events[of e c s] count_list_batch_events by metis
  ultimately show ?thesis
    by (simp add: workflow_mcp_batch_events workflow_batch_events count_list_append'
          count_alternating count_list_batch_events)
qed










text \<open>
  The sleep stands inside the \<^verbatim>\<open>try\<close> of the loop, after the call of the pipeline:
  a pipeline that throws on both of two targets leaves the batch without any sleep. The
  pipelines of the two agents never throw.
\<close>

lemma throwing_pipeline_skips_sleep:
  "count_list (trace (snd (executeAutonomousWorkflow_mcp_with executor_faulty env_down 2 agent0)))
     (Sleep 3000) = 0"
  by code_simp

section \<open>The utilities\<close>

lemma strip_label_eq: "strip_www d = spec_strip_label d"
proof -
  have "prefix ''www.'' d \<longleftrightarrow> take 4 d = ''www.''"
  proof
    assume "prefix ''www.'' d"
    then obtain zs where "d = ''www.'' @ zs" by (auto simp: prefix_def)
    then show "take 4 d = ''www.''" by simp
  next
    assume "take 4 d = ''www.''"
    then show "prefix ''www.'' d" by (metis take_is_prefix)
  qed
  then show ?thesis by (simp add: strip_www_def spec_strip_label_def)
qed

lemma strip_suffix_eq: "strip_tld d = spec_strip_suffix d"
  by (simp add: strip_tld_def spec_strip_suffix_def known_suffixes_def eval_nat_numeral)

lemma segments_eq: "split_on hyphen_or_dot d = spec_segments d"
proof (induction d)
  case Nil
  show ?case by (simp add: spec_segments.simps[of "[]"])
next
  case (Cons c cs)
  show ?case
  proof (cases "hyphen_or_dot c")
    case True
    with Cons show ?thesis by (simp add: spec_segments.simps[of "c # cs"])
  next
    case False
    from Cons have unfolded: "split_on hyphen_or_dot cs =
        (case dropWhile (\<lambda>c. \<not> hyphen_or_dot c) cs of
           [] \<Rightarrow> [takeWhile (\<lambda>c. \<not> hyphen_or_dot c) cs]
         | sep # rest \<Rightarrow> takeWhile (\<lambda>c. \<not> hyphen_or_dot c) cs # spec_segments rest)"
      using spec_segments.simps[of cs] by simp
    show ?thesis
    proof (cases "dropWhile (\<lambda>c. \<not> hyphen_or_dot c) cs")
      case Nil
      with False unfolded show ?thesis
        using spec_segments.simps[of "c # cs"] by (simp del: dropWhile_eq_Nil_conv)
    next
      case (Cons sep rest)
      with False unfolded show ?thesis
        using spec_segments.simps[of "c # cs"] by (simp del: dropWhile_eq_Nil_conv)
    qed
  qed
qed

lemma capitalize_eq: "capitalize w = spec_capitalize w"
  by (cases w) (simp_all add: capitalize_def spec_capitalize_def)

lemma foldl_join: "foldl (\<lambda>acc w. acc @ sep @ w) a ws = a @ concat (map (\<lambda>w. sep @ w) ws)"
  by (induction ws arbitrary: a) simp_all

lemma join_concat: "join sep (w # ws) = w @ concat (map (\<lambda>w. sep @ w) ws)"
  by (induction ws arbitrary: w) simp_all

lemma join_eq: "join '' '' ws = spec_join_spaces ws"
  by (cases ws) (simp_all add: spec_join_spaces_def foldl_join[of "'' ''", simplified]
        join_concat[of "'' ''", simplified])

text \<open>
  C3: the practice name is computed from the host name alone, by stripping a leading
  \<^verbatim>\<open>www.\<close> and a known suffix, splitting at hyphens and dots, capitalising each
  piece, joining with spaces and appending \<^verbatim>\<open>Clinic\<close>; it agrees with the
  derivation written from the specification's words on every input, and on
  \<^verbatim>\<open>www.example-clinic.co.uk\<close> it is \<^verbatim>\<open>Example Clinic Clinic\<close>.
\<close>

theorem derivePracticeName_example:
  "extractCompanyFromDomain d = derivePracticeName d
   \<and> extractCompanyFromDomain ''www.example-clinic.co.uk'' = ''Example Clinic Clinic''"
proof
  have "map capitalize = map spec_capitalize"
    using capitalize_eq by auto
  then show "extractCompanyFromDomain d = derivePracticeName d"
    by (simp add: extractCompanyFromDomain_def derivePracticeName_def strip_label_eq
          strip_suffix_eq segments_eq join_eq Let_def)
  show "extractCompanyFromDomain ''www.example-clinic.co.uk'' = ''Example Clinic Clinic''"
    by code_simp
qed

text \<open>
  The bounds of the lead score do not depend on the product being exact. Let the draw be
  at most the largest double below 1, and let \<open>rnd\<close> round the product to a nearest
  representable number, so that it is at least as near to the product as 0 and as
  \<open>30 - 1 / 2 ^ 48\<close>, the largest double below 30. The score is still from 70 to 99.
\<close>

lemma leadScore_range_rounded:
  assumes "0 \<le> r" and "r \<le> 1 - 1 / 2 ^ 53"
    and "\<bar>rnd (r * 30) - r * 30\<bar> \<le> \<bar>0 - r * 30\<bar>"
    and "\<bar>rnd (r * 30) - r * 30\<bar> \<le> \<bar>(30 - 1 / 2 ^ 48) - r * 30\<bar>"
  shows "70 \<le> draw_leadScore_rounded rnd r \<and> draw_leadScore_rounded rnd r \<le> 99"
proof -
  have lo: "0 \<le> rnd (r * 30)" using assms(1,3) by (simp add: abs_if split: if_splits)
  have "rnd (r * 30) < 30"
  proof (cases "r * 30 \<le> 30 - 1 / 2 ^ 48")
    case True
    with assms(4) have "rnd (r * 30) \<le> 30 - 1 / 2 ^ 48" by (simp add: abs_if split: if_splits)
    then show ?thesis by (smt (verit) zero_less_divide_1_iff zero_less_numeral zero_less_power)
  next
    case False
    with assms(4) have "rnd (r * 30) \<le> 2 * (r * 30) - (30 - 1 / 2 ^ 48)"
      by (simp add: abs_if split: if_splits)
    moreover from assms(2) have "r * 30 \<le> 30 - 30 / 2 ^ 53" by simp
    ultimately have "rnd (r * 30) \<le> 30 - 60 / 2 ^ 53 + 1 / 2 ^ 48" by simp
    then show ?thesis by simp
  qed
  with lo show ?thesis
    by (simp add: draw_leadScore_rounded_def floor_le_iff le_floor_iff)
qed

lemma collapse_all:
  "list_all P s \<Longrightarrow> list_all P (collapse_hyphens s)"
  by (induction s rule: collapse_hyphens.induct) auto

lemma trim_all:
  "list_all P s \<Longrightarrow> list_all P (trim_hyphens s)"
  by (auto simp add: trim_hyphens_def list_all_iff Let_def split: list.splits
        dest: in_set_butlastD)

lemma collapse_hd: "\<exists>rest. collapse_hyphens (a # cs) = a # rest"
  by (induction cs arbitrary: a) auto

lemma collapse_no_double: "\<not> double_hyphen (collapse_hyphens s)"
proof (induction s rule: collapse_hyphens.induct)
  case (1 a b cs)
  obtain rest where r: "collapse_hyphens (b # cs) = b # rest"
    using collapse_hd by blast
  show ?case
  proof (cases "a = CHR ''-'' \<and> b = CHR ''-''")
    case True
    with 1 show ?thesis by simp
  next
    case False
    with 1 have "\<not> double_hyphen (b # rest)" using r by simp
    with False r show ?thesis by auto
  qed
qed simp_all

lemma butlast_no_double: "\<not> double_hyphen s \<Longrightarrow> \<not> double_hyphen (butlast s)"
proof (induction s rule: double_hyphen.induct)
  case (1 a b cs)
  show ?case
  proof (cases cs)
    case Nil
    then show ?thesis by simp
  next
    case (Cons c ds)
    with 1 show ?thesis by auto
  qed
qed simp_all

lemma take_no_double: "\<not> double_hyphen s \<Longrightarrow> \<not> double_hyphen (take n s)"
proof (induction s arbitrary: n rule: double_hyphen.induct)
  case (1 a b cs)
  show ?case
  proof (cases n)
    case 0
    then show ?thesis by simp
  next
    case (Suc m)
    show ?thesis
    proof (cases m)
      case 0
      with Suc show ?thesis by simp
    next
      case (Suc k)
      from "1.prems" have "\<not> double_hyphen (b # cs)" and ab: "\<not> (a = CHR ''-'' \<and> b = CHR ''-'')"
        by auto
      then have "\<not> double_hyphen (take (Suc k) (b # cs))" using "1.IH" by blast
      with ab Suc \<open>n = Suc m\<close> show ?thesis by simp
    qed
  qed
qed (simp_all add: take_Cons')

lemma tl_no_double: "\<not> double_hyphen s \<Longrightarrow> \<not> double_hyphen (tl s)"
  by (induction s rule: double_hyphen.induct) auto

lemma trim_cases:
  "trim_hyphens s = s \<or> trim_hyphens s = tl s \<or> trim_hyphens s = butlast s
   \<or> trim_hyphens s = butlast (tl s)"
  by (auto simp add: trim_hyphens_def Let_def split: list.splits)

lemma trim_no_double: "\<not> double_hyphen s \<Longrightarrow> \<not> double_hyphen (trim_hyphens s)"
  using trim_cases[of s] tl_no_double[of s] butlast_no_double[of s] butlast_no_double[of "tl s"]
  by auto

lemma trim_hd:
  assumes nd: "\<not> double_hyphen s" and ne: "trim_hyphens s \<noteq> []"
  shows "hd (trim_hyphens s) \<noteq> CHR ''-''"
proof -
  define s1 where "s1 = (case s of [] \<Rightarrow> [] | c # cs \<Rightarrow> if c = CHR ''-'' then cs else s)"
  have t: "trim_hyphens s = (if s1 \<noteq> [] \<and> last s1 = CHR ''-'' then butlast s1 else s1)"
    by (simp add: trim_hyphens_def s1_def Let_def)
  with ne have s1ne: "s1 \<noteq> []" by (auto split: if_splits)
  have h1: "hd s1 \<noteq> CHR ''-''"
  proof (cases s)
    case Nil
    with s1ne show ?thesis by (simp add: s1_def)
  next
    case (Cons c cs)
    show ?thesis
    proof (cases "c = CHR ''-''")
      case True
      with Cons have "s1 = cs" by (simp add: s1_def)
      with s1ne nd Cons True show ?thesis by (cases cs) auto
    next
      case False
      with Cons show ?thesis by (simp add: s1_def)
    qed
  qed
  from ne t have "hd (trim_hyphens s) = hd s1"
    by (cases s1) (auto split: if_splits)
  with h1 show ?thesis by simp
qed

text \<open>
  What does hold of every practice identifier: its characters are lowercase letters,
  digits and hyphens, it has no two hyphens in a row, it does not start with a hyphen, and
  it has at most 25 characters.
\<close>

lemma generatePracticeId_shape:
  "list_all (\<lambda>c. lower_alnum c \<or> c = CHR ''-'') (generatePracticeId d)
   \<and> \<not> double_hyphen (generatePracticeId d)
   \<and> (generatePracticeId d \<noteq> [] \<longrightarrow> hd (generatePracticeId d) \<noteq> CHR ''-'')
   \<and> length (generatePracticeId d) \<le> 25"
proof -
  let ?h = "hyphenate (toLowerCase (strip_tld (strip_www d)))"
  let ?t = "trim_hyphens (collapse_hyphens ?h)"
  have a: "list_all (\<lambda>c. lower_alnum c \<or> c = CHR ''-'') ?h"
    by (auto simp add: hyphenate_def list_all_iff)
  have b: "list_all (\<lambda>c. lower_alnum c \<or> c = CHR ''-'') ?t"
    by (rule trim_all, rule collapse_all, rule a)
  have c: "\<not> double_hyphen ?t"
    by (rule trim_no_double, rule collapse_no_double)
  have e: "?t \<noteq> [] \<longrightarrow> hd ?t \<noteq> CHR ''-''"
    using trim_hd[OF collapse_no_double] by blast
  from b have "list_all (\<lambda>c. lower_alnum c \<or> c = CHR ''-'') (take 25 ?t)"
    by (auto simp add: list_all_iff dest: in_set_takeD)
  moreover from c have "\<not> double_hyphen (take 25 ?t)" by (rule take_no_double)
  moreover from e have "take 25 ?t \<noteq> [] \<longrightarrow> hd (take 25 ?t) \<noteq> CHR ''-''"
    by (cases ?t) auto
  ultimately show ?thesis
    by (simp add: generatePracticeId_def substring0_def)
qed

text \<open>
  C10 fails on the code: the identifier is cut to 25 characters after the hyphens at its
  ends were removed, so the cut can leave a hyphen at the end. The host name
  \<^verbatim>\<open>the-harley-street-clinic-london.co.uk\<close> gives an identifier that ends with a
  hyphen.
\<close>

theorem practiceId_trailing_hyphen:
  "generatePracticeId ''the-harley-street-clinic-london.co.uk'' = ''the-harley-street-clinic-''"
  by code_simp

end
